theory Spec2Isabelle
  imports Main "HOL-Library.Word" "HOL-Library.Sublist"
begin

section \<open>JavaScript values\<close>

text \<open>
  A JavaScript string is a sequence of 16-bit code units. \<open>ustr\<close> embeds an ASCII
  literal of the source, one code unit per character.
\<close>

type_synonym jstring = "16 word list"

definition ustr :: "string \<Rightarrow> jstring" where
  "ustr s = map of_char s"

text \<open>
  The values that \<open>express.json()\<close> and \<open>JSON.parse\<close> produce. The payload of a
  number is left open (type \<open>'n\<close>): the handlers only test a number for truthiness and
  render it in a template literal, and both operations are taken from the environment
  below. An object keeps its keys in insertion order; \<open>undefined\<close> is \<open>None\<close> of
  \<open>'n json option\<close>.
\<close>

datatype 'n json =
    JNull
  | JBool bool
  | JNum 'n
  | JStr jstring
  | JArr "'n json list"
  | JObj "(jstring \<times> 'n json) list"

text \<open>A thrown \<open>Error\<close>; the handlers read only \<open>err.message\<close>.\<close>

datatype exn = Exn (message: jstring)

subsection \<open>String methods\<close>

text \<open>
  \<open>str.replace(/p1|p2|.../g, "")\<close> for literal alternatives: at each position the
  first alternative that matches is removed and the scan goes on behind it; where none
  matches (or the match is empty) the code unit is kept.
\<close>

fun replace_all :: "jstring list \<Rightarrow> jstring \<Rightarrow> jstring" where
  "replace_all pats [] = []"
| "replace_all pats (c # cs) =
     (case find (\<lambda>p. prefix p (c # cs)) pats of
        None \<Rightarrow> c # replace_all pats cs
      | Some p \<Rightarrow> if p = [] then c # replace_all pats cs
                  else replace_all pats (drop (length p) (c # cs)))"

text \<open>\<open>WhiteSpace\<close> and \<open>LineTerminator\<close> of ECMAScript, which \<open>trim\<close> strips.\<close>

definition is_white_space :: "16 word \<Rightarrow> bool" where
  "is_white_space c \<longleftrightarrow>
     c \<in> set [0x09, 0x0A, 0x0B, 0x0C, 0x0D, 0x20, 0xA0, 0x1680,
              0x2000, 0x2001, 0x2002, 0x2003, 0x2004, 0x2005, 0x2006, 0x2007,
              0x2008, 0x2009, 0x200A, 0x2028, 0x2029, 0x202F, 0x205F, 0x3000, 0xFEFF]"

definition trim :: "jstring \<Rightarrow> jstring" where
  "trim s = rev (dropWhile is_white_space (rev (dropWhile is_white_space s)))"

text \<open>\<open>s.indexOf(c)\<close> and \<open>s.lastIndexOf(c)\<close> for a one-unit search string: \<open>-1\<close> when absent.\<close>

fun indexOf :: "jstring \<Rightarrow> 16 word \<Rightarrow> int" where
  "indexOf [] c = - 1"
| "indexOf (x # xs) c =
     (if x = c then 0
      else (let i = indexOf xs c in if i = - 1 then - 1 else i + 1))"

definition lastIndexOf :: "jstring \<Rightarrow> 16 word \<Rightarrow> int" where
  "lastIndexOf s c =
     (let i = indexOf (rev s) c in if i = - 1 then - 1 else int (length s) - 1 - i)"

text \<open>\<open>s.slice(a, b)\<close>: negative indices count from the end, both are clamped.\<close>

definition slice_str :: "jstring \<Rightarrow> int \<Rightarrow> int \<Rightarrow> jstring" where
  "slice_str s a b =
     (let len = int (length s);
          from = (if a < 0 then max (len + a) 0 else min a len);
          to = (if b < 0 then max (len + b) 0 else min b len)
      in take (nat (to - from)) (drop (nat from) s))"

text \<open>\<open>parts.join(sep)\<close> on an array of strings.\<close>

fun join :: "jstring \<Rightarrow> jstring list \<Rightarrow> jstring" where
  "join sep [] = []"
| "join sep [x] = x"
| "join sep (x # y # ys) = x @ sep @ join sep (y # ys)"

text \<open>Decimal digits of an array index, as a template literal renders it.\<close>

fun dec :: "nat \<Rightarrow> jstring" where
  "dec n = (if n < 10 then [of_nat (48 + n)] else dec (n div 10) @ [of_nat (48 + n mod 10)])"

subsection \<open>Truthiness and string conversion\<close>

text \<open>
  \<open>!v\<close> is true for \<open>undefined\<close>, \<open>null\<close>, \<open>false\<close>, a zero number and the empty
  string. \<open>zero\<close> says which numbers are falsy.
\<close>

fun truthy :: "('n \<Rightarrow> bool) \<Rightarrow> 'n json option \<Rightarrow> bool" where
  "truthy zero None = False"
| "truthy zero (Some JNull) = False"
| "truthy zero (Some (JBool b)) = b"
| "truthy zero (Some (JNum n)) = (\<not> zero n)"
| "truthy zero (Some (JStr s)) = (s \<noteq> [])"
| "truthy zero (Some (JArr xs)) = True"
| "truthy zero (Some (JObj kvs)) = True"

text \<open>The first exception of a list of results, or all the values.\<close>

fun sequence :: "(exn + 'a) list \<Rightarrow> exn + 'a list" where
  "sequence [] = Inr []"
| "sequence (Inl e # rs) = Inl e"
| "sequence (Inr x # rs) = (case sequence rs of Inl e \<Rightarrow> Inl e | Inr xs \<Rightarrow> Inr (x # xs))"

text \<open>
  \<open>ToString\<close> on a parsed JSON value, as \<open>${v}\<close> applies it. An array is joined with
  commas, \<open>null\<close> elements rendering empty. A plain object renders as
  \<open>[object Object]\<close> through \<open>Object.prototype.toString\<close>; when it has an own key
  \<open>toString\<close> the value there is not callable and the conversion throws a TypeError.
\<close>

fun to_string :: "('n \<Rightarrow> jstring) \<Rightarrow> 'n json \<Rightarrow> exn + jstring" where
  "to_string num JNull = Inr (ustr ''null'')"
| "to_string num (JBool b) = Inr (if b then ustr ''true'' else ustr ''false'')"
| "to_string num (JNum n) = Inr (num n)"
| "to_string num (JStr s) = Inr s"
| "to_string num (JArr xs) =
     (case sequence (map (\<lambda>x. if x = JNull then Inr [] else to_string num x) xs) of
        Inl e \<Rightarrow> Inl e
      | Inr parts \<Rightarrow> Inr (join (ustr '','') parts))"
| "to_string num (JObj kvs) =
     (if ustr ''toString'' \<in> fst ` set kvs
      then Inl (Exn (ustr ''Cannot convert object to primitive value''))
      else Inr (ustr ''[object Object]''))"

fun template :: "('n \<Rightarrow> jstring) \<Rightarrow> 'n json option \<Rightarrow> exn + jstring" where
  "template num None = Inr (ustr ''undefined'')"
| "template num (Some v) = to_string num v"

section \<open>Schema validation\<close>

text \<open>
  The keywords of JSON Schema that the schema of \<open>/analyze\<close> uses, interpreted as Ajv
  does: \<open>type\<close> is checked first and the other keywords only on a value of that type;
  \<open>properties\<close> constrains the keys that are present, \<open>required\<close> asks for keys,
  \<open>additionalProperties: false\<close> rejects keys outside \<open>properties\<close>. The \<open>enum\<close>
  lists of this schema hold strings only. Every schema node of the source gives its
  \<open>type\<close>.
\<close>

datatype jtype = TString | TArray | TObject

datatype schema =
  Schema (stype: jtype) (senum: "jstring list option") (sitems: "schema option")
    (sproperties: "(jstring \<times> schema) list") (srequired: "jstring list")
    (sadditional: bool)

datatype keyword =
    KType jtype
  | KEnum
  | KRequired jstring
  | KAdditionalProperties jstring

datatype verror = VError (instancePath: "jstring list") (keyword: keyword)

fun has_type :: "jtype \<Rightarrow> 'n json \<Rightarrow> bool" where
  "has_type TString (JStr s) = True"
| "has_type TArray (JArr xs) = True"
| "has_type TObject (JObj kvs) = True"
| "has_type t v = False"

text \<open>Every failure of a value against a schema, in the order Ajv checks the keywords.\<close>

fun errors_of :: "schema \<Rightarrow> jstring list \<Rightarrow> 'n json \<Rightarrow> verror list" where
  "errors_of (Schema t en it props req addl) path v =
     (if \<not> has_type t v then [VError path (KType t)]
      else
        (case en of
           None \<Rightarrow> []
         | Some allowed \<Rightarrow> if v \<in> JStr ` set allowed then [] else [VError path KEnum])
        @ (case (it, v) of
             (Some sub, JArr xs) \<Rightarrow>
               concat (map (\<lambda>ix. errors_of sub (path @ [dec (fst ix)]) (snd ix))
                         (enumerate 0 xs))
           | _ \<Rightarrow> [])
        @ (case v of
             JObj kvs \<Rightarrow>
               map (\<lambda>k. VError path (KRequired k)) (filter (\<lambda>k. k \<notin> fst ` set kvs) req)
               @ (if addl then []
                  else map (\<lambda>k. VError path (KAdditionalProperties k))
                         (filter (\<lambda>k. k \<notin> fst ` set props) (map fst kvs)))
               @ concat (map (\<lambda>ks. case map_of kvs (fst ks) of
                                       None \<Rightarrow> []
                                     | Some x \<Rightarrow> errors_of (snd ks) (path @ [fst ks]) x)
                             props)
           | _ \<Rightarrow> []))"

text \<open>
  \<open>new Ajv()\<close> compiles with \<open>allErrors\<close> off: the validator stops at the first
  failure, so \<open>validate.errors\<close> holds one error, and the validator returns true exactly
  when there is none.
\<close>

definition compile :: "schema \<Rightarrow> 'n json \<Rightarrow> verror list" where
  "compile s v = take 1 (errors_of s [] v)"

abbreviation type_string :: schema where
  "type_string \<equiv> Schema TString None None [] [] True"

abbreviation type_enum :: "jstring list \<Rightarrow> schema" where
  "type_enum allowed \<equiv> Schema TString (Some allowed) None [] [] True"

abbreviation type_array :: "schema \<Rightarrow> schema" where
  "type_array items \<equiv> Schema TArray None (Some items) [] [] True"

abbreviation type_object :: "(jstring \<times> schema) list \<Rightarrow> jstring list \<Rightarrow> schema" where
  "type_object props req \<equiv> Schema TObject None None props req True"

definition schema :: schema where
  "schema =
     Schema TObject None None
       [(ustr ''vocabulary'',
           type_array (type_object
             [(ustr ''word'', type_string), (ustr ''meaning'', type_string)]
             [ustr ''word'', ustr ''meaning''])),
        (ustr ''title'', type_string),
        (ustr ''main_idea'',
           type_object
             [(ustr ''direct'', type_string), (ustr ''indirect'', type_string)]
             [ustr ''direct'', ustr ''indirect'']),
        (ustr ''facts_opinions_inferences'',
           type_array (type_object
             [(ustr ''type'', type_enum [ustr ''Fact'', ustr ''Opinion'', ustr ''Inference'']),
              (ustr ''text'', type_string)]
             [ustr ''type'', ustr ''text''])),
        (ustr ''transitions'',
           type_array (type_object
             [(ustr ''src'', type_string),
              (ustr ''dest'', type_string),
              (ustr ''relation'',
                 type_enum [ustr ''logical'', ustr ''contrastive'', ustr ''sequential'',
                            ustr ''causal''])]
             [ustr ''src'', ustr ''dest'', ustr ''relation''])),
        (ustr ''keywords'', type_array type_string),
        (ustr ''purpose'', type_string)]
       [ustr ''vocabulary'', ustr ''title'', ustr ''main_idea'',
        ustr ''facts_opinions_inferences'', ustr ''transitions'', ustr ''keywords'',
        ustr ''purpose'']
       False"

definition validate :: "'n json \<Rightarrow> verror list" where
  "validate = compile schema"

section \<open>The server\<close>

text \<open>
  What the handlers take from outside the file: the prompt templates they import, the
  hosted model (\<open>generateContent\<close> is the text of the reply, or the error the call or
  \<open>response.text()\<close> throws), \<open>JSON.parse\<close>, and the two operations on numbers.
\<close>

record 'n env =
  RC_ANALYSIS_PROMPT :: jstring
  RC_MINDMAP_PROMPT :: jstring
  RC_THOUGHT_SOLVER_PROMPT :: jstring
  generateContent :: "jstring \<Rightarrow> exn + jstring"
  JSON_parse :: "jstring \<Rightarrow> exn + 'n json"
  Number_toString :: "'n \<Rightarrow> jstring"
  Number_falsy :: "'n \<Rightarrow> bool"

text \<open>
  A response is its status and its body: \<open>res.json(v)\<close>, the object of the 422 reply
  (\<open>error\<close>, \<open>validationErrors\<close>, \<open>rawOutput\<close>), or \<open>res.send(text)\<close>. A handler
  returns its response and the prompts it sent to the model, in order. The
  \<open>console\<close> calls of the handlers are left out; they do not reach the response.

  A request is \<open>req.body\<close> as the body parsers left it: an object, in which a key that
  it does not have reads as \<open>undefined\<close>, or \<open>undefined\<close> itself (\<open>None\<close>) where no
  parser took the body, as Express 5 leaves it. Each handler destructures \<open>req.body\<close>
  inside its \<open>try\<close>; on \<open>undefined\<close> that throws the TypeError below.
\<close>

datatype 'n body =
    JsonBody "'n json"
  | ValidationBody jstring "verror list" "'n json"
  | TextBody jstring

record 'n response =
  status :: nat
  body :: "'n body"

type_synonym 'n request = "(jstring \<Rightarrow> 'n json option) option"

definition generateWithModel :: "'n env \<Rightarrow> jstring \<Rightarrow> exn + jstring" where
  "generateWithModel env prompt =
     (case generateContent env prompt of
        Inl err \<Rightarrow> Inl err
      | Inr text \<Rightarrow> Inr (trim text))"

definition destructure_undefined :: exn where
  "destructure_undefined =
     Exn (ustr ''Cannot destructure property 'passage' of 'req.body' as it is undefined.'')"

text \<open>The \<open>catch\<close> block of the three routes, and of the one-route server.\<close>

definition catch :: "exn \<Rightarrow> 'n response" where
  "catch err = \<lparr>status = 500, body = JsonBody (JObj [(ustr ''error'', JStr (message err))])\<rparr>"

definition catch_minimal :: "exn \<Rightarrow> 'n response" where
  "catch_minimal err =
     \<lparr>status = 500,
      body = JsonBody (JObj [(ustr ''error'', JStr (ustr ''Internal server error'')),
                             (ustr ''details'', JStr (message err))])\<rparr>"

text \<open>
  The extraction that \<open>/analyze\<close> and \<open>/solve\<close> share line for line.
  \<open>cleanText\<close> is the constant of that name; \<open>json_slice\<close> is the text handed to
  \<open>JSON.parse\<close>, or \<open>None\<close> where the handler answers that no JSON was found.
\<close>

definition cleanText :: "jstring \<Rightarrow> jstring" where
  "cleanText responseText = trim (replace_all [ustr ''```json'', ustr ''```''] responseText)"

definition json_slice :: "jstring \<Rightarrow> jstring option" where
  "json_slice responseText =
     (let text = cleanText responseText;
          start = indexOf text 0x7B;
          end = lastIndexOf text 0x7D
      in if start = - 1 \<or> end = - 1 then None
         else Some (slice_str text start (end + 1)))"

subsection \<open>POST /analyze\<close>

definition analyze_reply :: "'n env \<Rightarrow> jstring \<Rightarrow> 'n response" where
  "analyze_reply env responseText =
     (case json_slice responseText of
        None \<Rightarrow> \<lparr>status = 400, body = JsonBody (JObj [(ustr ''error'', JStr (ustr ''No valid JSON found''))])\<rparr>
      | Some jsonString \<Rightarrow>
          (case JSON_parse env jsonString of
             Inl err \<Rightarrow> catch err
           | Inr parsed \<Rightarrow>
               (let errors = validate parsed in
                if errors \<noteq> []
                then \<lparr>status = 422,
                      body = ValidationBody (ustr ''Response schema validation failed'')
                               errors parsed\<rparr>
                else \<lparr>status = 200, body = JsonBody parsed\<rparr>)))"

definition analyze :: "'n env \<Rightarrow> 'n request \<Rightarrow> 'n response \<times> jstring list" where
  "analyze env req_body =
     (case req_body of
        None \<Rightarrow> (catch destructure_undefined, [])
      | Some body_object \<Rightarrow>
          (let passage = body_object (ustr ''passage'') in
           if \<not> truthy (Number_falsy env) passage
           then (\<lparr>status = 400, body = JsonBody (JObj [(ustr ''error'', JStr (ustr ''Passage is required''))])\<rparr>, [])
           else
             (case template (Number_toString env) passage of
                Inl err \<Rightarrow> (catch err, [])
              | Inr p \<Rightarrow>
                  (let prompt = RC_ANALYSIS_PROMPT env @ ustr ''\<newline>\<newline>Passage:\<newline>'' @ p in
                   case generateWithModel env prompt of
                     Inl err \<Rightarrow> (catch err, [prompt])
                   | Inr responseText \<Rightarrow> (analyze_reply env responseText, [prompt])))))"

subsection \<open>POST /mindmap\<close>

definition cleanHTML :: "jstring \<Rightarrow> jstring" where
  "cleanHTML responseText = trim (replace_all [ustr ''```html'', ustr ''```''] responseText)"

definition mindmap_reply :: "jstring \<Rightarrow> 'n response" where
  "mindmap_reply responseText = \<lparr>status = 200, body = TextBody (cleanHTML responseText)\<rparr>"

definition mindmap :: "'n env \<Rightarrow> 'n request \<Rightarrow> 'n response \<times> jstring list" where
  "mindmap env req_body =
     (case req_body of
        None \<Rightarrow> (catch destructure_undefined, [])
      | Some body_object \<Rightarrow>
          (let passage = body_object (ustr ''passage'') in
           if \<not> truthy (Number_falsy env) passage
           then (\<lparr>status = 400, body = JsonBody (JObj [(ustr ''error'', JStr (ustr ''Passage is required''))])\<rparr>, [])
           else
             (case template (Number_toString env) passage of
                Inl err \<Rightarrow> (catch err, [])
              | Inr p \<Rightarrow>
                  (let prompt = RC_MINDMAP_PROMPT env @ ustr ''\<newline>\<newline>Passage:\<newline>'' @ p in
                   case generateWithModel env prompt of
                     Inl err \<Rightarrow> (catch err, [prompt])
                   | Inr responseText \<Rightarrow> (mindmap_reply responseText, [prompt])))))"

subsection \<open>POST /solve\<close>

text \<open>
  A non-empty array of questions becomes numbered lines; anything else is left as it is
  and rendered by the prompt's template literal.
\<close>

definition combinedQuestions ::
  "('n \<Rightarrow> jstring) \<Rightarrow> 'n json option \<Rightarrow> exn + 'n json option" where
  "combinedQuestions num questions =
     (case questions of
        Some (JArr (q # qs)) \<Rightarrow>
          (case sequence
                  (map (\<lambda>iq. case to_string num (snd iq) of
                                Inl err \<Rightarrow> Inl err
                              | Inr s \<Rightarrow> Inr (dec (fst iq + 1) @ ustr ''. '' @ s))
                       (enumerate 0 (q # qs))) of
             Inl err \<Rightarrow> Inl err
           | Inr numbered \<Rightarrow> Inr (Some (JStr (join (ustr ''\<newline>'') numbered))))
      | _ \<Rightarrow> Inr questions)"

definition solve_reply :: "'n env \<Rightarrow> jstring \<Rightarrow> 'n response" where
  "solve_reply env responseText =
     (case json_slice responseText of
        None \<Rightarrow> \<lparr>status = 400, body = JsonBody (JObj [(ustr ''error'', JStr (ustr ''No valid JSON found''))])\<rparr>
      | Some jsonString \<Rightarrow>
          (case JSON_parse env jsonString of
             Inl err \<Rightarrow> catch err
           | Inr parsed \<Rightarrow> \<lparr>status = 200, body = JsonBody parsed\<rparr>))"

definition solve :: "'n env \<Rightarrow> 'n request \<Rightarrow> 'n response \<times> jstring list" where
  "solve env req_body =
     (case req_body of
        None \<Rightarrow> (catch destructure_undefined, [])
      | Some body_object \<Rightarrow>
          (let passage = body_object (ustr ''passage'');
               questions = body_object (ustr ''questions'')
           in
           if \<not> truthy (Number_falsy env) passage \<or> \<not> truthy (Number_falsy env) questions
           then (\<lparr>status = 400,
                  body = JsonBody (JObj [(ustr ''error'', JStr (ustr ''Passage and questions are required''))])\<rparr>, [])
           else
             (case combinedQuestions (Number_toString env) questions of
                Inl err \<Rightarrow> (catch err, [])
              | Inr combined \<Rightarrow>
                  (case template (Number_toString env) passage of
                     Inl err \<Rightarrow> (catch err, [])
                   | Inr p \<Rightarrow>
                       (case template (Number_toString env) combined of
                          Inl err \<Rightarrow> (catch err, [])
                        | Inr cq \<Rightarrow>
                            (let prompt = RC_THOUGHT_SOLVER_PROMPT env
                                   @ ustr ''\<newline>\<newline>Passage:\<newline>'' @ p
                                   @ ustr ''\<newline>\<newline>Questions:\<newline>'' @ cq in
                             case generateWithModel env prompt of
                               Inl err \<Rightarrow> (catch err, [prompt])
                             | Inr responseText \<Rightarrow> (solve_reply env responseText, [prompt])))))))"

subsection \<open>The one-route server: POST /analyze\<close>

definition analyze_minimal_reply :: "'n env \<Rightarrow> jstring \<Rightarrow> 'n response" where
  "analyze_minimal_reply env responseText =
     (case json_slice responseText of
        None \<Rightarrow>
          \<lparr>status = 400, body = JsonBody (JObj [(ustr ''error'', JStr (ustr ''No valid JSON found in AI response''))])\<rparr>
      | Some jsonString \<Rightarrow>
          (case JSON_parse env jsonString of
             Inl err \<Rightarrow> catch_minimal err
           | Inr parsed \<Rightarrow>
               (let errors = validate parsed in
                if errors \<noteq> []
                then \<lparr>status = 422,
                      body = ValidationBody (ustr ''Response schema validation failed'')
                               errors parsed\<rparr>
                else \<lparr>status = 200, body = JsonBody parsed\<rparr>)))"

definition analyze_minimal :: "'n env \<Rightarrow> 'n request \<Rightarrow> 'n response \<times> jstring list" where
  "analyze_minimal env req_body =
     (case req_body of
        None \<Rightarrow> (catch_minimal destructure_undefined, [])
      | Some body_object \<Rightarrow>
          (let passage = body_object (ustr ''passage'') in
           if \<not> truthy (Number_falsy env) passage
           then (\<lparr>status = 400, body = JsonBody (JObj [(ustr ''error'', JStr (ustr ''Passage is required''))])\<rparr>, [])
           else
             (case template (Number_toString env) passage of
                Inl err \<Rightarrow> (catch_minimal err, [])
              | Inr p \<Rightarrow>
                  (let prompt = RC_ANALYSIS_PROMPT env @ ustr ''\<newline>\<newline>Passage:\<newline>'' @ p in
                   case generateWithModel env prompt of
                     Inl err \<Rightarrow> (catch_minimal err, [prompt])
                   | Inr responseText \<Rightarrow> (analyze_minimal_reply env responseText, [prompt])))))"

section \<open>The extractor as the specification words it\<close>

text \<open>
  The specification's JSON extractor removes three fence markers, \<open>```json\<close>,
  \<open>```html\<close> and \<open>```\<close>, before it trims and slices. These two definitions follow
  that wording, to be compared with \<open>cleanText\<close> and \<open>json_slice\<close> above.
\<close>

definition spec_cleanText :: "jstring \<Rightarrow> jstring" where
  "spec_cleanText responseText =
     trim (replace_all [ustr ''```json'', ustr ''```html'', ustr ''```''] responseText)"

definition spec_json_slice :: "jstring \<Rightarrow> jstring option" where
  "spec_json_slice responseText =
     (let text = spec_cleanText responseText;
          start = indexOf text 0x7B;
          end = lastIndexOf text 0x7D
      in if start = - 1 \<or> end = - 1 then None
         else Some (slice_str text start (end + 1)))"



section \<open>A stub environment\<close>

text \<open>
  The concrete instances below run the handlers against a stub: numbers are naturals,
  the model gives the same reply to every prompt, and the parser the same result for
  every text. Where an instance lets the parser succeed, its result is the value of the
  JSON text that the handler slices out of the stub's reply.
\<close>

definition stub_env :: "exn + jstring \<Rightarrow> exn + nat json \<Rightarrow> nat env" where
  "stub_env reply parsed =
     \<lparr>RC_ANALYSIS_PROMPT = ustr ''Analyze the passage.'',
      RC_MINDMAP_PROMPT = ustr ''Draw a mind map.'',
      RC_THOUGHT_SOLVER_PROMPT = ustr ''Answer the questions.'',
      generateContent = (\<lambda>prompt. reply),
      JSON_parse = (\<lambda>text. parsed),
      Number_toString = dec,
      Number_falsy = (\<lambda>n. n = 0)\<rparr>"

text \<open>A fenced reply that conforms to the schema, and the value it parses to.\<close>

definition sample_reply :: jstring where
  "sample_reply =
     ustr ''```json\<newline>{\"vocabulary\":[],\"title\":\"T\",\"main_idea\":{\"direct\":\"d\",\"indirect\":\"i\"},\"facts_opinions_inferences\":[],\"transitions\":[],\"keywords\":[],\"purpose\":\"p\"}\<newline>```''"

definition sample_analysis :: "nat json" where
  "sample_analysis =
     JObj [(ustr ''vocabulary'', JArr []),
           (ustr ''title'', JStr (ustr ''T'')),
           (ustr ''main_idea'',
              JObj [(ustr ''direct'', JStr (ustr ''d'')),
                    (ustr ''indirect'', JStr (ustr ''i''))]),
           (ustr ''facts_opinions_inferences'', JArr []),
           (ustr ''transitions'', JArr []),
           (ustr ''keywords'', JArr []),
           (ustr ''purpose'', JStr (ustr ''p''))]"

text \<open>A reply whose object has only a title, and the value it parses to.\<close>

definition incomplete_reply :: jstring where
  "incomplete_reply = ustr ''Here you go: {\"title\":\"T\"}''"

definition incomplete_analysis :: "nat json" where
  "incomplete_analysis = JObj [(ustr ''title'', JStr (ustr ''T''))]"

text \<open>Body objects; \<open>Some\<close> of one is a request.\<close>

definition passage_only :: "jstring \<Rightarrow> nat json option" where
  "passage_only =
     (\<lambda>key. if key = ustr ''passage'' then Some (JStr (ustr ''Sand.'')) else None)"

definition empty_passage :: "jstring \<Rightarrow> nat json option" where
  "empty_passage =
     (\<lambda>key. if key = ustr ''passage'' then Some (JStr [])
            else if key = ustr ''questions'' then Some (JStr (ustr ''What is X?''))
            else None)"

definition two_questions :: "jstring \<Rightarrow> nat json option" where
  "two_questions =
     (\<lambda>key. if key = ustr ''passage'' then Some (JStr (ustr ''Sand.''))
            else if key = ustr ''questions''
            then Some (JArr [JStr (ustr ''What is X?''), JStr (ustr ''Why Y?'')])
            else None)"

definition one_question :: "jstring \<Rightarrow> nat json option" where
  "one_question =
     (\<lambda>key. if key = ustr ''passage'' then Some (JStr (ustr ''Sand.''))
            else if key = ustr ''questions'' then Some (JStr (ustr ''What is X?''))
            else None)"

definition empty_questions :: "jstring \<Rightarrow> nat json option" where
  "empty_questions =
     (\<lambda>key. if key = ustr ''passage'' then Some (JStr (ustr ''Sand.''))
            else if key = ustr ''questions'' then Some (JStr [])
            else None)"

section \<open>Facts about the string methods\<close>

lemma indexOf_range: "- 1 \<le> indexOf s c"
  by (induction s) (auto simp: Let_def)

lemma indexOf_absent: "indexOf s c = - 1 \<longleftrightarrow> c \<notin> set s"
proof (induction s)
  case Nil
  then show ?case by simp
next
  case (Cons x xs)
  have "- 1 \<le> indexOf xs c" by (rule indexOf_range)
  with Cons show ?case by (auto simp: Let_def)
qed

lemma indexOf_first:
  "c \<in> set s \<Longrightarrow> \<exists>i. indexOf s c = int i \<and> i < length s \<and> s ! i = c \<and> (\<forall>k<i. s ! k \<noteq> c)"
proof (induction s)
  case Nil
  then show ?case by simp
next
  case (Cons x xs)
  show ?case
  proof (cases "x = c")
    case True
    then show ?thesis by simp
  next
    case False
    with Cons.prems have "c \<in> set xs" by simp
    from Cons.IH [OF this] obtain i where
      i: "indexOf xs c = int i" "i < length xs" "xs ! i = c" "\<forall>k<i. xs ! k \<noteq> c"
      by blast
    have "\<forall>k<Suc i. (x # xs) ! k \<noteq> c"
      using False i(4) by (auto simp: nth_Cons split: nat.splits)
    with False i show ?thesis
      by (intro exI [of _ "Suc i"]) (simp add: Let_def)
  qed
qed

lemma lastIndexOf_absent: "lastIndexOf s c = - 1 \<longleftrightarrow> c \<notin> set s"
proof -
  have "indexOf (rev s) c \<noteq> - 1 \<Longrightarrow> int (length s) - 1 - indexOf (rev s) c \<noteq> - 1"
    using indexOf_first [of c "rev s"] indexOf_absent [of "rev s" c] by auto
  then show ?thesis
    using indexOf_absent [of "rev s" c] by (auto simp: lastIndexOf_def Let_def)
qed

lemma lastIndexOf_last:
  assumes "c \<in> set s"
  shows "\<exists>j. lastIndexOf s c = int j \<and> j < length s \<and> s ! j = c
            \<and> (\<forall>k. j < k \<and> k < length s \<longrightarrow> s ! k \<noteq> c)"
proof -
  from assms have "c \<in> set (rev s)" by simp
  from indexOf_first [OF this] obtain i where
    i: "indexOf (rev s) c = int i" "i < length s" "rev s ! i = c" "\<forall>k<i. rev s ! k \<noteq> c"
    by auto
  let ?j = "length s - 1 - i"
  have j: "?j < length s" using i(2) by simp
  have "lastIndexOf s c = int ?j"
    using i(1,2) by (simp add: lastIndexOf_def Let_def of_nat_diff)
  moreover have "s ! ?j = c"
    using i(2,3) by (simp add: rev_nth)
  moreover have "s ! k \<noteq> c" if "?j < k" "k < length s" for k
  proof -
    have "length s - Suc k < i" using that i(2) by arith
    with i(4) have "rev s ! (length s - Suc k) \<noteq> c" by blast
    moreover have "rev s ! (length s - Suc k) = s ! k"
      using that by (simp add: rev_nth)
    ultimately show ?thesis by simp
  qed
  ultimately show ?thesis using j by blast
qed

lemma slice_nat:
  "slice_str s (int i) (int j + 1) = take (Suc j - i) (drop i s)"
  if "i \<le> length s" "j < length s"
proof -
  have "nat (int j + 1) = Suc j" by simp
  then show ?thesis
    using that by (auto simp: slice_str_def Let_def min_def nat_diff_distrib')
qed

subsection \<open>Fence removal\<close>

lemma find_fences:
  "find (\<lambda>p. prefix p s) [f @ w, f] =
     (if prefix (f @ w) s then Some (f @ w) else if prefix f s then Some f else None)"
  by simp

lemma replace_all_subseq: "subseq (replace_all pats s) s"
proof (induction pats s rule: replace_all.induct)
  case (1 pats)
  then show ?case by simp
next
  case (2 pats c cs)
  show ?case
  proof (cases "find (\<lambda>p. prefix p (c # cs)) pats")
    case None
    with 2 show ?thesis by simp
  next
    case (Some p)
    show ?thesis
    proof (cases "p = []")
      case True
      with Some 2 show ?thesis by simp
    next
      case False
      with Some 2 have "subseq (replace_all pats (drop (length p) (c # cs))) (drop (length p) (c # cs))"
        by simp
      moreover have "subseq (drop (length p) (c # cs)) (c # cs)"
        by (metis append_take_drop_id list_emb_append2 subseq_order.order_refl) 
      ultimately have "subseq (replace_all pats (drop (length p) (c # cs))) (c # cs)"
        by (rule subseq_order.order_trans)
      with Some False show ?thesis by simp
    qed
  qed
qed

lemma replace_all_keeps_prefix:
  "\<forall>p \<in> set pats. p \<noteq> [] \<and> hd p \<notin> set a \<Longrightarrow> replace_all pats (a @ s) = a @ replace_all pats s"
proof (induction a)
  case Nil
  then show ?case by simp
next
  case (Cons x a)
  have "find (\<lambda>p. prefix p (x # a @ s)) pats = None"
    using Cons.prems by (auto simp: find_None_iff prefix_Cons  neq_Nil_conv)
  moreover have "replace_all pats (a @ s) = a @ replace_all pats s"
    using Cons by simp
  ultimately show ?case by simp
qed

lemma replace_all_fence:
  "f \<noteq> [] \<Longrightarrow> replace_all [f @ w, f] (f @ b) =
     (if prefix w b then replace_all [f @ w, f] (drop (length w) b)
      else replace_all [f @ w, f] b)"
  by (cases f) (auto)

lemma replace_all_no_fence:
  assumes "\<not> prefix f (c # cs)"
  shows "replace_all [f @ w, f] (c # cs) = c # replace_all [f @ w, f] cs"
proof -
  from assms have "\<not> prefix (f @ w) (c # cs)"
    using append_prefixD by blast
  with assms have "find (\<lambda>p. prefix p (c # cs)) [f @ w, f] = None"
    unfolding find_fences by simp
  then show ?thesis
    by (simp only: replace_all.simps option.case)
qed

lemma stripped_head1:
  "replace_all [[t, t, t] @ w, [t, t, t]] s = t # r \<Longrightarrow> \<exists>s'. s = t # s'"
proof (cases s)
  case Nil
  assume "replace_all [[t, t, t] @ w, [t, t, t]] s = t # r"
  with Nil show ?thesis by simp
next
  case (Cons c cs)
  assume a: "replace_all [[t, t, t] @ w, [t, t, t]] s = t # r"
  show ?thesis
  proof (cases "prefix [t, t, t] s")
    case True
    then show ?thesis by (auto simp: prefix_def)
  next
    case False
    with Cons a show ?thesis
      using replace_all_no_fence [of "[t, t, t]" c cs w] by auto
  qed
qed

lemma stripped_head2:
  "replace_all [[t, t, t] @ w, [t, t, t]] s = t # t # r \<Longrightarrow> \<exists>s'. s = t # t # s'"
proof (cases s)
  case Nil
  assume "replace_all [[t, t, t] @ w, [t, t, t]] s = t # t # r"
  with Nil show ?thesis by simp
next
  case (Cons c cs)
  assume a: "replace_all [[t, t, t] @ w, [t, t, t]] s = t # t # r"
  show ?thesis
  proof (cases "prefix [t, t, t] s")
    case True
    then show ?thesis by (auto simp: prefix_def)
  next
    case False
    with Cons a have "c = t" "replace_all [[t, t, t] @ w, [t, t, t]] cs = t # r"
      using replace_all_no_fence [of "[t, t, t]" c cs w] by auto
    with stripped_head1 [of t w cs r] Cons show ?thesis by auto
  qed
qed

lemma no_fence_left:
  "\<not> sublist [t, t, t] (replace_all [[t, t, t] @ w, [t, t, t]] s)"
proof (induction s rule: length_induct)
  case (1 s)
  let ?R = "replace_all [[t, t, t] @ w, [t, t, t]]"
  show ?case
  proof (cases s)
    case Nil
    then show ?thesis by simp
  next
    case (Cons c cs)
    have IH: "\<not> sublist [t, t, t] (?R u)" if "length u < length s" for u
      using 1 that by blast
    show ?thesis
    proof (cases "prefix [t, t, t] s")
      case True
      then obtain b where b: "s = [t, t, t] @ b" by (auto simp: prefix_def)
      have "?R s = (if prefix w b then ?R (drop (length w) b) else ?R b)"
        unfolding b by (rule replace_all_fence) simp
      moreover have "length (drop (length w) b) < length s" "length b < length s"
        using b by simp_all
      ultimately show ?thesis using IH by presburger
    next
      case False
      with Cons have R: "?R s = c # ?R cs"
        using replace_all_no_fence [of "[t, t, t]" c cs w] by simp
      have "\<not> prefix [t, t, t] (c # ?R cs)"
      proof
        assume "prefix [t, t, t] (c # ?R cs)"
        then obtain r where "c = t" "?R cs = t # t # r" by (auto simp: prefix_def)
        with stripped_head2 [of t w cs r] Cons have "prefix [t, t, t] s" by auto
        with False show False by simp
      qed
      moreover have "\<not> sublist [t, t, t] (?R cs)" using IH [of cs] Cons by simp
      ultimately show ?thesis unfolding R by (simp add: sublist_Cons_right)
    qed
  qed
qed

lemma fence_units:
  "ustr ''```'' = [0x60, 0x60, 0x60]"
  "ustr ''```json'' = [0x60, 0x60, 0x60] @ ustr ''json''"
  "ustr ''```html'' = [0x60, 0x60, 0x60] @ ustr ''html''"
  by (simp_all add: ustr_def)

lemma trim_sublist: "sublist (trim s) s"
proof -
  let ?u = "dropWhile is_white_space s"
  have "suffix ?u s"
    by (rule suffix_dropWhile)
  moreover have "?u = rev (dropWhile is_white_space (rev ?u)) @ rev (takeWhile is_white_space (rev ?u))"
    by (metis rev_append rev_rev_ident takeWhile_dropWhile_id)
  then have "prefix (rev (dropWhile is_white_space (rev ?u))) ?u"
    by (metis prefixI)
  ultimately show ?thesis
    unfolding trim_def
    by (meson prefix_imp_sublist suffix_imp_sublist sublist_order.order_trans)
qed

lemma cleaned_has_no_fence:
  "\<not> sublist (ustr ''```'') (cleanText text)" "\<not> sublist (ustr ''```'') (cleanHTML text)"
proof -
  have "\<not> sublist (ustr ''```'') (replace_all [ustr ''```json'', ustr ''```''] text)"
    unfolding fence_units by (rule no_fence_left)
  then show "\<not> sublist (ustr ''```'') (cleanText text)"
    unfolding cleanText_def using trim_sublist sublist_order.order_trans by blast
  have "\<not> sublist (ustr ''```'') (replace_all [ustr ''```html'', ustr ''```''] text)"
    unfolding fence_units by (rule no_fence_left)
  then show "\<not> sublist (ustr ''```'') (cleanHTML text)"
    unfolding cleanHTML_def using trim_sublist sublist_order.order_trans by blast
qed

lemma cleaned_only_deletes:
  "subseq (cleanText text) text" "subseq (cleanHTML text) text"
proof -
  have "subseq (trim u) u" for u
    using trim_sublist by (rule sublist_imp_subseq)
  then show "subseq (cleanText text) text" "subseq (cleanHTML text) text"
    unfolding cleanText_def cleanHTML_def
    using replace_all_subseq subseq_order.order_trans by blast+
qed

lemma fence_after_plain_text:
  assumes "0x60 \<notin> set before"
  shows "replace_all [ustr ''```'' @ w, ustr ''```''] (before @ ustr ''```'' @ after) =
           before @ (if prefix w after
                     then replace_all [ustr ''```'' @ w, ustr ''```''] (drop (length w) after)
                     else replace_all [ustr ''```'' @ w, ustr ''```''] after)"
proof -
  have "\<forall>p \<in> set [ustr ''```'' @ w, ustr ''```'']. p \<noteq> [] \<and> hd p \<notin> set before"
    using assms by (simp add: fence_units)
  then have "replace_all [ustr ''```'' @ w, ustr ''```''] (before @ ustr ''```'' @ after) =
           before @ replace_all [ustr ''```'' @ w, ustr ''```''] (ustr ''```'' @ after)"
    by (rule replace_all_keeps_prefix)
  moreover have "ustr ''```'' \<noteq> []" by (simp add: fence_units)
  then have "replace_all [ustr ''```'' @ w, ustr ''```''] (ustr ''```'' @ after) =
           (if prefix w after
            then replace_all [ustr ''```'' @ w, ustr ''```''] (drop (length w) after)
            else replace_all [ustr ''```'' @ w, ustr ''```''] after)"
    by (rule replace_all_fence)
  ultimately show ?thesis
    by (simp only:)
qed


lemma replace_all_scan:
  assumes "f \<noteq> []"
  shows "prefix (f @ w) s \<Longrightarrow>
           replace_all [f @ w, f] s = replace_all [f @ w, f] (drop (length (f @ w)) s)"
    and "\<not> prefix (f @ w) s \<Longrightarrow> prefix f s \<Longrightarrow>
           replace_all [f @ w, f] s = replace_all [f @ w, f] (drop (length f) s)"
proof -
  show "replace_all [f @ w, f] s = replace_all [f @ w, f] (drop (length (f @ w)) s)"
    if p: "prefix (f @ w) s"
  proof (cases s)
    case Nil
    with p assms show ?thesis by simp
  next
    case (Cons c cs)
    from p have "find (\<lambda>p. prefix p (c # cs)) [f @ w, f] = Some (f @ w)"
      unfolding find_fences Cons by simp
    then show ?thesis
      unfolding Cons using assms by (simp only: replace_all.simps option.case) simp
  qed
  show "replace_all [f @ w, f] s = replace_all [f @ w, f] (drop (length f) s)"
    if n: "\<not> prefix (f @ w) s" and p: "prefix f s"
  proof (cases s)
    case Nil
    with p assms show ?thesis by simp
  next
    case (Cons c cs)
    from n p have "find (\<lambda>p. prefix p (c # cs)) [f @ w, f] = Some f"
      unfolding find_fences Cons by simp
    then show ?thesis
      unfolding Cons using assms by (simp only: replace_all.simps option.case) simp
  qed
qed

lemma scan_json:
  "replace_all [ustr ''```json'', ustr ''```''] [] = []
   \<and> (prefix (ustr ''```json'') s \<longrightarrow> replace_all [ustr ''```json'', ustr ''```''] s = replace_all [ustr ''```json'', ustr ''```''] (drop 7 s))
   \<and> (\<not> prefix (ustr ''```json'') s \<and> prefix (ustr ''```'') s \<longrightarrow> replace_all [ustr ''```json'', ustr ''```''] s = replace_all [ustr ''```json'', ustr ''```''] (drop 3 s))
   \<and> (\<not> prefix (ustr ''```'') (c # cs) \<longrightarrow> replace_all [ustr ''```json'', ustr ''```''] (c # cs) = c # replace_all [ustr ''```json'', ustr ''```''] cs)"
proof -
  have m: "ustr ''```json'' = ustr ''```'' @ ustr ''json''"
    and l: "length (ustr ''```'' @ ustr ''json'') = 7" "length (ustr ''```'') = 3"
    and ne: "ustr ''```'' \<noteq> []"
    by (simp_all add: ustr_def)
  let ?R = "replace_all [ustr ''```'' @ ustr ''json'', ustr ''```'']"
  have 1: "?R [] = []"
    by simp
  have 2: "prefix (ustr ''```'' @ ustr ''json'') s \<longrightarrow> ?R s = ?R (drop 7 s)"
    using replace_all_scan(1) [OF ne, of "ustr ''json''" s] unfolding l by blast
  have 3: "\<not> prefix (ustr ''```'' @ ustr ''json'') s \<and> prefix (ustr ''```'') s
             \<longrightarrow> ?R s = ?R (drop 3 s)"
    using replace_all_scan(2) [OF ne, of "ustr ''json''" s] unfolding l by blast
  have 4: "\<not> prefix (ustr ''```'') (c # cs) \<longrightarrow> ?R (c # cs) = c # ?R cs"
    using replace_all_no_fence [of "ustr ''```''" c cs "ustr ''json''"] by blast
  from 1 2 3 4 show ?thesis
    unfolding m by blast
qed


lemma trim_ends:
  "(\<exists>l r. s = l @ trim s @ r \<and> (\<forall>u \<in> set l. is_white_space u) \<and> (\<forall>u \<in> set r. is_white_space u))
   \<and> (trim s \<noteq> [] \<longrightarrow> \<not> is_white_space (hd (trim s)) \<and> \<not> is_white_space (last (trim s)))"
proof -
  let ?u = "dropWhile is_white_space s"
  let ?l = "takeWhile is_white_space s"
  let ?r = "rev (takeWhile is_white_space (rev ?u))"
  have t: "trim s = rev (dropWhile is_white_space (rev ?u))"
    by (simp add: trim_def)
  have u: "?u = trim s @ ?r"
    unfolding t by (metis rev_append rev_rev_ident takeWhile_dropWhile_id)
  have "s = ?l @ trim s @ ?r"
    using u by (metis takeWhile_dropWhile_id)
  moreover have "\<forall>u \<in> set ?l. is_white_space u"
    by (metis set_takeWhileD)
  moreover have "\<forall>u \<in> set ?r. is_white_space u"
    by (metis set_rev set_takeWhileD)
  ultimately have 1: "\<exists>l r. s = l @ trim s @ r \<and> (\<forall>u \<in> set l. is_white_space u)
      \<and> (\<forall>u \<in> set r. is_white_space u)"
    by blast
  have 2: "\<not> is_white_space (hd (trim s)) \<and> \<not> is_white_space (last (trim s))"
    if ne: "trim s \<noteq> []"
  proof -
    from ne have d: "dropWhile is_white_space (rev ?u) \<noteq> []"
      unfolding t by simp
    then have "\<not> is_white_space (hd (dropWhile is_white_space (rev ?u)))"
      by (rule hd_dropWhile)
    then have l: "\<not> is_white_space (last (trim s))"
      unfolding t using d by (simp add: last_rev)
    from ne u have "?u \<noteq> []"
      by (metis Nil_is_append_conv)
    then have "\<not> is_white_space (hd ?u)"
      by (rule hd_dropWhile)
    moreover have "hd ?u = hd (trim s)"
      using u ne by (metis hd_append2)
    ultimately show ?thesis using l by simp
  qed
  from 1 2 show ?thesis by blast
qed

lemma white_space_units:
  "(is_white_space c \<longleftrightarrow>
      c \<in> {0x09, 0x0A, 0x0B, 0x0C, 0x0D, 0x20, 0xA0, 0x1680, 0x2000, 0x2001, 0x2002, 0x2003,
           0x2004, 0x2005, 0x2006, 0x2007, 0x2008, 0x2009, 0x200A, 0x2028, 0x2029, 0x202F,
           0x205F, 0x3000, 0xFEFF})"
  by (simp add: is_white_space_def)

section \<open>Facts about the validator\<close>

lemma errors_of_closed_object:
  assumes "errors_of (Schema TObject en it props req False) path v = []"
  shows "\<exists>kvs. v = JObj kvs \<and> set req \<subseteq> fst ` set kvs \<and> fst ` set kvs \<subseteq> fst ` set props"
proof (cases v)
  case (JObj kvs)
  with assms have "filter (\<lambda>k. k \<notin> fst ` set kvs) req = []"
    and "filter (\<lambda>k. k \<notin> fst ` set props) (map fst kvs) = []"
    by simp_all
  then have "set req \<subseteq> fst ` set kvs" and "fst ` set kvs \<subseteq> fst ` set props"
    by (auto simp: filter_empty_conv)
  with JObj show ?thesis by simp
qed (use assms in simp_all)

lemma errors_of_missing_key:
  assumes "k \<in> set req" and "k \<notin> fst ` set kvs"
  shows "errors_of (Schema TObject en it props req addl) path (JObj kvs) \<noteq> []"
proof -
  from assms have "filter (\<lambda>k. k \<notin> fst ` set kvs) req \<noteq> []"
    by (auto simp: filter_empty_conv)
  then show ?thesis by simp
qed

lemma compile_empty: "compile s v = [] \<longleftrightarrow> errors_of s [] v = []"
  by (simp add: compile_def)

lemma schema_top_level:
  "\<exists>en it props. schema = Schema TObject en it props (srequired schema) False
      \<and> map fst props = (srequired schema)"
  by (simp add: schema_def)

lemma schema_required:
  "srequired schema =
     [ustr ''vocabulary'', ustr ''title'', ustr ''main_idea'',
      ustr ''facts_opinions_inferences'', ustr ''transitions'', ustr ''keywords'',
      ustr ''purpose'']"
  by (simp add: schema_def)

lemma validate_accepts:
  assumes "validate v = []"
  shows "\<exists>kvs. v = JObj kvs \<and> set (map fst kvs) = set (srequired schema)"
proof -
  from schema_top_level obtain en it props where
    s: "schema = Schema TObject en it props (srequired schema) False"
    and p: "map fst props = (srequired schema)"
    by blast
  from assms have "errors_of (Schema TObject en it props (srequired schema) False) [] v = []"
    using s by (simp add: validate_def compile_empty)
  from errors_of_closed_object [OF this] obtain kvs where
    "v = JObj kvs" "set (srequired schema) \<subseteq> fst ` set kvs" "fst ` set kvs \<subseteq> fst ` set props"
    by blast
  moreover have "fst ` set props = set (srequired schema)"
    using p by (metis set_map)
  ultimately show ?thesis by auto
qed

lemma validate_rejects_missing:
  assumes "k \<in> set (srequired schema)" and "k \<notin> fst ` set kvs"
  shows "validate (JObj kvs) \<noteq> []"
proof -
  from schema_top_level obtain en it props where
    s: "schema = Schema TObject en it props (srequired schema) False"
    by blast
  show ?thesis
    using errors_of_missing_key [of k "srequired schema" kvs en it props False "[]"] assms s
    by (simp add: validate_def compile_empty)
qed

lemma analyze_reply_200:
  assumes "status (analyze_reply env t) = 200"
  shows "\<exists>v. body (analyze_reply env t) = JsonBody v \<and> validate v = []"
  using assms
  by (auto simp: analyze_reply_def catch_def Let_def split: option.splits sum.splits if_splits)

lemma analyze_minimal_reply_200:
  assumes "status (analyze_minimal_reply env t) = 200"
  shows "\<exists>v. body (analyze_minimal_reply env t) = JsonBody v \<and> validate v = []"
  using assms
  by (auto simp: analyze_minimal_reply_def catch_minimal_def Let_def
        split: option.splits sum.splits if_splits)

lemma analyze_200:
  assumes "status (fst (analyze env req_body)) = 200"
  shows "\<exists>t. fst (analyze env req_body) = analyze_reply env t"
  using assms
  by (auto simp: analyze_def catch_def Let_def split: sum.splits if_splits option.splits)

lemma analyze_minimal_200:
  assumes "status (fst (analyze_minimal env req_body)) = 200"
  shows "\<exists>t. fst (analyze_minimal env req_body) = analyze_minimal_reply env t"
  using assms
  by (auto simp: analyze_minimal_def catch_minimal_def Let_def
        split: sum.splits if_splits option.splits)

section \<open>Facts about the handlers\<close>

lemma analyze_run:
  assumes "truthy (Number_falsy env) (obj (ustr ''passage''))"
    and "template (Number_toString env) (obj (ustr ''passage'')) = Inr p"
    and "generateContent env (RC_ANALYSIS_PROMPT env @ ustr ''\<newline>\<newline>Passage:\<newline>'' @ p) = Inr reply"
  shows "analyze env (Some obj) =
           (analyze_reply env (trim reply), [RC_ANALYSIS_PROMPT env @ ustr ''\<newline>\<newline>Passage:\<newline>'' @ p])"
    and "analyze_minimal env (Some obj) =
           (analyze_minimal_reply env (trim reply), [RC_ANALYSIS_PROMPT env @ ustr ''\<newline>\<newline>Passage:\<newline>'' @ p])"
  using assms by (simp_all add: analyze_def analyze_minimal_def generateWithModel_def)

lemma mindmap_run:
  assumes "truthy (Number_falsy env) (obj (ustr ''passage''))"
    and "template (Number_toString env) (obj (ustr ''passage'')) = Inr p"
    and "generateContent env (RC_MINDMAP_PROMPT env @ ustr ''\<newline>\<newline>Passage:\<newline>'' @ p) = Inr reply"
  shows "mindmap env (Some obj) =
           (mindmap_reply (trim reply), [RC_MINDMAP_PROMPT env @ ustr ''\<newline>\<newline>Passage:\<newline>'' @ p])"
  using assms by (simp add: mindmap_def generateWithModel_def)

lemma solve_run:
  assumes "truthy (Number_falsy env) (obj (ustr ''passage''))"
    and "truthy (Number_falsy env) (obj (ustr ''questions''))"
    and "combinedQuestions (Number_toString env) (obj (ustr ''questions'')) = Inr combined"
    and "template (Number_toString env) (obj (ustr ''passage'')) = Inr p"
    and "template (Number_toString env) combined = Inr cq"
    and "generateContent env
           (RC_THOUGHT_SOLVER_PROMPT env @ ustr ''\<newline>\<newline>Passage:\<newline>'' @ p @ ustr ''\<newline>\<newline>Questions:\<newline>'' @ cq) = Inr reply"
  shows "solve env (Some obj) =
           (solve_reply env (trim reply),
            [RC_THOUGHT_SOLVER_PROMPT env @ ustr ''\<newline>\<newline>Passage:\<newline>'' @ p @ ustr ''\<newline>\<newline>Questions:\<newline>'' @ cq])"
  using assms by (simp add: solve_def generateWithModel_def)

lemma json_slice_absent:
  "json_slice t = None \<longleftrightarrow> 0x7B \<notin> set (cleanText t) \<or> 0x7D \<notin> set (cleanText t)"
  by (simp add: json_slice_def Let_def indexOf_absent lastIndexOf_absent)

lemma json_slice_present:
  assumes "0x7B \<in> set (cleanText t)" and "0x7D \<in> set (cleanText t)"
  shows "\<exists>i j. i < length (cleanText t) \<and> j < length (cleanText t)
           \<and> cleanText t ! i = 0x7B \<and> (\<forall>k<i. cleanText t ! k \<noteq> 0x7B)
           \<and> cleanText t ! j = 0x7D
           \<and> (\<forall>k. j < k \<and> k < length (cleanText t) \<longrightarrow> cleanText t ! k \<noteq> 0x7D)
           \<and> json_slice t = Some (take (Suc j - i) (drop i (cleanText t)))"
proof -
  from indexOf_first [OF assms(1)] obtain i where
    i: "indexOf (cleanText t) 0x7B = int i" "i < length (cleanText t)"
       "cleanText t ! i = 0x7B" "\<forall>k<i. cleanText t ! k \<noteq> 0x7B"
    by blast
  from lastIndexOf_last [OF assms(2)] obtain j where
    j: "lastIndexOf (cleanText t) 0x7D = int j" "j < length (cleanText t)"
       "cleanText t ! j = 0x7D"
       "\<forall>k. j < k \<and> k < length (cleanText t) \<longrightarrow> cleanText t ! k \<noteq> 0x7D"
    by blast
  have "json_slice t = Some (slice_str (cleanText t) (int i) (int j + 1))"
    using i(1) j(1) by (simp add: json_slice_def Let_def)
  also have "slice_str (cleanText t) (int i) (int j + 1) = take (Suc j - i) (drop i (cleanText t))"
    using i(2) j(2) by (intro slice_nat) simp_all
  finally show ?thesis using i j by blast
qed

lemma replies_without_json:
  assumes "0x7B \<notin> set (cleanText t) \<or> 0x7D \<notin> set (cleanText t)"
  shows "analyze_reply env t = \<lparr>status = 400, body = JsonBody (JObj [(ustr ''error'', JStr (ustr ''No valid JSON found''))])\<rparr>"
    and "solve_reply env t = \<lparr>status = 400, body = JsonBody (JObj [(ustr ''error'', JStr (ustr ''No valid JSON found''))])\<rparr>"
    and "analyze_minimal_reply env t = \<lparr>status = 400, body = JsonBody (JObj [(ustr ''error'', JStr (ustr ''No valid JSON found in AI response''))])\<rparr>"
proof -
  from assms have n: "json_slice t = None" by (simp only: json_slice_absent)
  show "analyze_reply env t = \<lparr>status = 400, body = JsonBody (JObj [(ustr ''error'', JStr (ustr ''No valid JSON found''))])\<rparr>"
    by (simp add: analyze_reply_def n)
  show "solve_reply env t = \<lparr>status = 400, body = JsonBody (JObj [(ustr ''error'', JStr (ustr ''No valid JSON found''))])\<rparr>"
    by (simp add: solve_reply_def n)
  show "analyze_minimal_reply env t = \<lparr>status = 400, body = JsonBody (JObj [(ustr ''error'', JStr (ustr ''No valid JSON found in AI response''))])\<rparr>"
    by (simp add: analyze_minimal_reply_def n)
qed

lemma replies_with_slice:
  assumes "json_slice t = Some text"
  shows "analyze_reply env t =
           (case JSON_parse env (text) of
              Inl err \<Rightarrow> \<lparr>status = 500, body = JsonBody (JObj [(ustr ''error'', JStr (message err))])\<rparr>
            | Inr parsed \<Rightarrow>
                if validate parsed \<noteq> [] then \<lparr>status = 422, body = ValidationBody (ustr ''Response schema validation failed'') (validate parsed) parsed\<rparr>
                else \<lparr>status = 200, body = JsonBody parsed\<rparr>)"
    and "solve_reply env t =
           (case JSON_parse env (text) of
              Inl err \<Rightarrow> \<lparr>status = 500, body = JsonBody (JObj [(ustr ''error'', JStr (message err))])\<rparr>
            | Inr parsed \<Rightarrow> \<lparr>status = 200, body = JsonBody parsed\<rparr>)"
    and "analyze_minimal_reply env t =
           (case JSON_parse env (text) of
              Inl err \<Rightarrow>
                \<lparr>status = 500, body = JsonBody (JObj [(ustr ''error'', JStr (ustr ''Internal server error'')),
                                  (ustr ''details'', JStr (message err))])\<rparr>
            | Inr parsed \<Rightarrow>
                if validate parsed \<noteq> [] then \<lparr>status = 422, body = ValidationBody (ustr ''Response schema validation failed'') (validate parsed) parsed\<rparr>
                else \<lparr>status = 200, body = JsonBody parsed\<rparr>)"
  using assms
  by (simp_all add: analyze_reply_def solve_reply_def analyze_minimal_reply_def catch_def
        catch_minimal_def Let_def split: sum.splits)

lemma extraction_without_json:
  "(0x7B \<notin> set (trim (replace_all [ustr ''```json'', ustr ''```''] (trim reply))) \<or> 0x7D \<notin> set (trim (replace_all [ustr ''```json'', ustr ''```''] (trim reply))) \<longrightarrow>
      (truthy (Number_falsy env) (obj (ustr ''passage''))
       \<and> template (Number_toString env) (obj (ustr ''passage'')) = Inr p
       \<and> generateContent env (RC_ANALYSIS_PROMPT env @ ustr ''\<newline>\<newline>Passage:\<newline>'' @ p) = Inr reply
       \<longrightarrow> fst (analyze env (Some obj)) =
             \<lparr>status = 400, body = JsonBody (JObj [(ustr ''error'', JStr (ustr ''No valid JSON found''))])\<rparr>
         \<and> fst (analyze_minimal env (Some obj)) =
             \<lparr>status = 400, body = JsonBody (JObj [(ustr ''error'', JStr (ustr ''No valid JSON found in AI response''))])\<rparr>)
    \<and> (truthy (Number_falsy env) (obj (ustr ''passage''))
       \<and> truthy (Number_falsy env) (obj (ustr ''questions''))
       \<and> combinedQuestions (Number_toString env) (obj (ustr ''questions'')) = Inr combined
       \<and> template (Number_toString env) (obj (ustr ''passage'')) = Inr p
       \<and> template (Number_toString env) combined = Inr cq
       \<and> generateContent env
             (RC_THOUGHT_SOLVER_PROMPT env @ ustr ''\<newline>\<newline>Passage:\<newline>'' @ p @ ustr ''\<newline>\<newline>Questions:\<newline>'' @ cq) = Inr reply
       \<longrightarrow> fst (solve env (Some obj)) =
             \<lparr>status = 400, body = JsonBody (JObj [(ustr ''error'', JStr (ustr ''No valid JSON found''))])\<rparr>))"
proof (intro impI conjI)
  assume a: "0x7B \<notin> set (trim (replace_all [ustr ''```json'', ustr ''```''] (trim reply))) \<or> 0x7D \<notin> set (trim (replace_all [ustr ''```json'', ustr ''```''] (trim reply)))"
  then have c: "0x7B \<notin> set (cleanText (trim reply)) \<or> 0x7D \<notin> set (cleanText (trim reply))"
    by (simp only: cleanText_def)
  {
    assume h: "truthy (Number_falsy env) (obj (ustr ''passage''))
               \<and> template (Number_toString env) (obj (ustr ''passage'')) = Inr p
               \<and> generateContent env (RC_ANALYSIS_PROMPT env @ ustr ''\<newline>\<newline>Passage:\<newline>'' @ p) = Inr reply"
    from h analyze_run [of env obj p reply] replies_without_json [OF c, of env]
    show "fst (analyze env (Some obj)) =
            \<lparr>status = 400, body = JsonBody (JObj [(ustr ''error'', JStr (ustr ''No valid JSON found''))])\<rparr>"
      by simp
    from h analyze_run [of env obj p reply] replies_without_json [OF c, of env]
    show "fst (analyze_minimal env (Some obj)) =
            \<lparr>status = 400, body = JsonBody (JObj [(ustr ''error'', JStr (ustr ''No valid JSON found in AI response''))])\<rparr>"
      by simp
  }
  {
    assume h: "truthy (Number_falsy env) (obj (ustr ''passage''))
               \<and> truthy (Number_falsy env) (obj (ustr ''questions''))
               \<and> combinedQuestions (Number_toString env) (obj (ustr ''questions'')) = Inr combined
               \<and> template (Number_toString env) (obj (ustr ''passage'')) = Inr p
               \<and> template (Number_toString env) combined = Inr cq
               \<and> generateContent env
                     (RC_THOUGHT_SOLVER_PROMPT env @ ustr ''\<newline>\<newline>Passage:\<newline>'' @ p @ ustr ''\<newline>\<newline>Questions:\<newline>'' @ cq) = Inr reply"
    from h solve_run [of env obj combined p cq reply] replies_without_json [OF c, of env]
    show "fst (solve env (Some obj)) =
            \<lparr>status = 400, body = JsonBody (JObj [(ustr ''error'', JStr (ustr ''No valid JSON found''))])\<rparr>"
      by simp
  }
qed

lemma extraction_with_json:
  "(0x7B \<in> set (trim (replace_all [ustr ''```json'', ustr ''```''] (trim reply))) \<and> 0x7D \<in> set (trim (replace_all [ustr ''```json'', ustr ''```''] (trim reply))) \<longrightarrow>
      (\<exists>i j. i < length (trim (replace_all [ustr ''```json'', ustr ''```''] (trim reply))) \<and> j < length (trim (replace_all [ustr ''```json'', ustr ''```''] (trim reply)))
            \<and> (trim (replace_all [ustr ''```json'', ustr ''```''] (trim reply))) ! i = 0x7B \<and> (\<forall>k<i. (trim (replace_all [ustr ''```json'', ustr ''```''] (trim reply))) ! k \<noteq> 0x7B)
            \<and> (trim (replace_all [ustr ''```json'', ustr ''```''] (trim reply))) ! j = 0x7D \<and> (\<forall>k. j < k \<and> k < length (trim (replace_all [ustr ''```json'', ustr ''```''] (trim reply))) \<longrightarrow> (trim (replace_all [ustr ''```json'', ustr ''```''] (trim reply))) ! k \<noteq> 0x7D)
         \<and> (truthy (Number_falsy env) (obj (ustr ''passage''))
            \<and> template (Number_toString env) (obj (ustr ''passage'')) = Inr p
            \<and> generateContent env (RC_ANALYSIS_PROMPT env @ ustr ''\<newline>\<newline>Passage:\<newline>'' @ p) = Inr reply
            \<longrightarrow> fst (analyze env (Some obj)) =
                  (case JSON_parse env (take (Suc j - i) (drop i (trim (replace_all [ustr ''```json'', ustr ''```''] (trim reply))))) of
                     Inl err \<Rightarrow> \<lparr>status = 500, body = JsonBody (JObj [(ustr ''error'', JStr (message err))])\<rparr>
                   | Inr parsed \<Rightarrow>
                       if validate parsed \<noteq> [] then \<lparr>status = 422, body = ValidationBody (ustr ''Response schema validation failed'') (validate parsed) parsed\<rparr>
                       else \<lparr>status = 200, body = JsonBody parsed\<rparr>)
              \<and> fst (analyze_minimal env (Some obj)) =
                  (case JSON_parse env (take (Suc j - i) (drop i (trim (replace_all [ustr ''```json'', ustr ''```''] (trim reply))))) of
                     Inl err \<Rightarrow>
                       \<lparr>status = 500, body = JsonBody (JObj [(ustr ''error'', JStr (ustr ''Internal server error'')),
                                         (ustr ''details'', JStr (message err))])\<rparr>
                   | Inr parsed \<Rightarrow>
                       if validate parsed \<noteq> [] then \<lparr>status = 422, body = ValidationBody (ustr ''Response schema validation failed'') (validate parsed) parsed\<rparr>
                       else \<lparr>status = 200, body = JsonBody parsed\<rparr>))
         \<and> (truthy (Number_falsy env) (obj (ustr ''passage''))
            \<and> truthy (Number_falsy env) (obj (ustr ''questions''))
            \<and> combinedQuestions (Number_toString env) (obj (ustr ''questions'')) = Inr combined
            \<and> template (Number_toString env) (obj (ustr ''passage'')) = Inr p
            \<and> template (Number_toString env) combined = Inr cq
            \<and> generateContent env
                  (RC_THOUGHT_SOLVER_PROMPT env @ ustr ''\<newline>\<newline>Passage:\<newline>'' @ p @ ustr ''\<newline>\<newline>Questions:\<newline>'' @ cq) = Inr reply
            \<longrightarrow> fst (solve env (Some obj)) =
                  (case JSON_parse env (take (Suc j - i) (drop i (trim (replace_all [ustr ''```json'', ustr ''```''] (trim reply))))) of
                     Inl err \<Rightarrow> \<lparr>status = 500, body = JsonBody (JObj [(ustr ''error'', JStr (message err))])\<rparr>
                   | Inr parsed \<Rightarrow> \<lparr>status = 200, body = JsonBody parsed\<rparr>))))"
proof
  assume "0x7B \<in> set (trim (replace_all [ustr ''```json'', ustr ''```''] (trim reply))) \<and> 0x7D \<in> set (trim (replace_all [ustr ''```json'', ustr ''```''] (trim reply)))"
  then have "0x7B \<in> set (cleanText (trim reply))" "0x7D \<in> set (cleanText (trim reply))"
    by (simp_all only: cleanText_def)
  from json_slice_present [OF this] obtain i j where
    ij: "i < length (cleanText (trim reply))" "j < length (cleanText (trim reply))"
        "cleanText (trim reply) ! i = 0x7B" "\<forall>k<i. cleanText (trim reply) ! k \<noteq> 0x7B"
        "cleanText (trim reply) ! j = 0x7D"
        "\<forall>k. j < k \<and> k < length (cleanText (trim reply))
            \<longrightarrow> cleanText (trim reply) ! k \<noteq> 0x7D"
    and s: "json_slice (trim reply) = Some (take (Suc j - i) (drop i (cleanText (trim reply))))"
    by blast
  note r = replies_with_slice [OF s, of env]
  have a: "fst (analyze env (Some obj)) = analyze_reply env (trim reply)"
    "fst (analyze_minimal env (Some obj)) = analyze_minimal_reply env (trim reply)"
    if "truthy (Number_falsy env) (obj (ustr ''passage''))
        \<and> template (Number_toString env) (obj (ustr ''passage'')) = Inr p
        \<and> generateContent env (RC_ANALYSIS_PROMPT env @ ustr ''\<newline>\<newline>Passage:\<newline>'' @ p) = Inr reply"
    using that analyze_run [of env obj p reply] by simp_all
  have b: "fst (solve env (Some obj)) = solve_reply env (trim reply)"
    if "truthy (Number_falsy env) (obj (ustr ''passage''))
        \<and> truthy (Number_falsy env) (obj (ustr ''questions''))
        \<and> combinedQuestions (Number_toString env) (obj (ustr ''questions'')) = Inr combined
        \<and> template (Number_toString env) (obj (ustr ''passage'')) = Inr p
        \<and> template (Number_toString env) combined = Inr cq
        \<and> generateContent env
              (RC_THOUGHT_SOLVER_PROMPT env @ ustr ''\<newline>\<newline>Passage:\<newline>'' @ p @ ustr ''\<newline>\<newline>Questions:\<newline>'' @ cq) = Inr reply"
    using that solve_run [of env obj combined p cq reply] by simp
  show "\<exists>i j. i < length (trim (replace_all [ustr ''```json'', ustr ''```''] (trim reply))) \<and> j < length (trim (replace_all [ustr ''```json'', ustr ''```''] (trim reply)))
             \<and> (trim (replace_all [ustr ''```json'', ustr ''```''] (trim reply))) ! i = 0x7B \<and> (\<forall>k<i. (trim (replace_all [ustr ''```json'', ustr ''```''] (trim reply))) ! k \<noteq> 0x7B)
             \<and> (trim (replace_all [ustr ''```json'', ustr ''```''] (trim reply))) ! j = 0x7D \<and> (\<forall>k. j < k \<and> k < length (trim (replace_all [ustr ''```json'', ustr ''```''] (trim reply))) \<longrightarrow> (trim (replace_all [ustr ''```json'', ustr ''```''] (trim reply))) ! k \<noteq> 0x7D)
          \<and> (truthy (Number_falsy env) (obj (ustr ''passage''))
             \<and> template (Number_toString env) (obj (ustr ''passage'')) = Inr p
             \<and> generateContent env (RC_ANALYSIS_PROMPT env @ ustr ''\<newline>\<newline>Passage:\<newline>'' @ p) = Inr reply
             \<longrightarrow> fst (analyze env (Some obj)) =
                   (case JSON_parse env (take (Suc j - i) (drop i (trim (replace_all [ustr ''```json'', ustr ''```''] (trim reply))))) of
                      Inl err \<Rightarrow> \<lparr>status = 500, body = JsonBody (JObj [(ustr ''error'', JStr (message err))])\<rparr>
                    | Inr parsed \<Rightarrow>
                        if validate parsed \<noteq> [] then \<lparr>status = 422, body = ValidationBody (ustr ''Response schema validation failed'') (validate parsed) parsed\<rparr>
                        else \<lparr>status = 200, body = JsonBody parsed\<rparr>)
               \<and> fst (analyze_minimal env (Some obj)) =
                   (case JSON_parse env (take (Suc j - i) (drop i (trim (replace_all [ustr ''```json'', ustr ''```''] (trim reply))))) of
                      Inl err \<Rightarrow>
                        \<lparr>status = 500, body = JsonBody (JObj [(ustr ''error'', JStr (ustr ''Internal server error'')),
                                          (ustr ''details'', JStr (message err))])\<rparr>
                    | Inr parsed \<Rightarrow>
                        if validate parsed \<noteq> [] then \<lparr>status = 422, body = ValidationBody (ustr ''Response schema validation failed'') (validate parsed) parsed\<rparr>
                        else \<lparr>status = 200, body = JsonBody parsed\<rparr>))
          \<and> (truthy (Number_falsy env) (obj (ustr ''passage''))
             \<and> truthy (Number_falsy env) (obj (ustr ''questions''))
             \<and> combinedQuestions (Number_toString env) (obj (ustr ''questions'')) = Inr combined
             \<and> template (Number_toString env) (obj (ustr ''passage'')) = Inr p
             \<and> template (Number_toString env) combined = Inr cq
             \<and> generateContent env
                   (RC_THOUGHT_SOLVER_PROMPT env @ ustr ''\<newline>\<newline>Passage:\<newline>'' @ p @ ustr ''\<newline>\<newline>Questions:\<newline>'' @ cq) = Inr reply
             \<longrightarrow> fst (solve env (Some obj)) =
                   (case JSON_parse env (take (Suc j - i) (drop i (trim (replace_all [ustr ''```json'', ustr ''```''] (trim reply))))) of
                      Inl err \<Rightarrow> \<lparr>status = 500, body = JsonBody (JObj [(ustr ''error'', JStr (message err))])\<rparr>
                    | Inr parsed \<Rightarrow> \<lparr>status = 200, body = JsonBody parsed\<rparr>))"
    apply (rule exI [of _ i], rule exI [of _ j])
    using ij a b r unfolding cleanText_def by simp
qed

lemma numbered_lines:
  assumes "list_all2 (\<lambda>q r. to_string num q = Inr r) qs rs"
  shows "sequence (map (\<lambda>iq. case to_string num (snd iq) of
                                Inl err \<Rightarrow> Inl err
                              | Inr s \<Rightarrow> Inr (dec (fst iq + 1) @ ustr ''. '' @ s))
                       (enumerate n qs))
         = Inr (map (\<lambda>i. dec (n + i + 1) @ ustr ''. '' @ rs ! i) [0..<length rs])"
  using assms
proof (induction qs rs arbitrary: n rule: list_all2_induct)
  case Nil
  then show ?case by simp
next
  case (Cons q qs r rs)
  have "map (\<lambda>i. dec (n + i + 1) @ ustr ''. '' @ (r # rs) ! i) [0..<length (r # rs)]
        = (dec (n + 1) @ ustr ''. '' @ r)
          # map (\<lambda>i. dec (Suc n + i + 1) @ ustr ''. '' @ rs ! i) [0..<length rs]"
  proof -
    have "[0..<length (r # rs)] = 0 # map Suc [0..<length rs]"
      by (simp add: map_Suc_upt upt_conv_Cons del: upt_Suc)
    then show ?thesis by (simp del: dec.simps upt_Suc)
  qed
  with Cons show ?case by (simp del: dec.simps)
qed

lemma combinedQuestions_array:
  assumes "qs \<noteq> []" and "list_all2 (\<lambda>q r. to_string num q = Inr r) qs rs"
  shows "combinedQuestions num (Some (JArr qs)) =
           Inr (Some (JStr (join (ustr ''\<newline>'')
                  (map (\<lambda>i. dec (i + 1) @ ustr ''. '' @ rs ! i) [0..<length rs]))))"
proof -
  from assms(1) obtain q qs' where qs: "qs = q # qs'" by (cases qs) auto
  show ?thesis
    using numbered_lines [OF assms(2), of 0]
    unfolding combinedQuestions_def qs by (simp del: dec.simps)
qed

subsection \<open>Concrete evaluations\<close>

lemma example_slice:
  "json_slice (ustr ''prefix {\"a\":1} middle {\"b\":2} suffix'') =
     Some (ustr ''{\"a\":1} middle {\"b\":2}'')"
  by code_simp

lemma example_clean:
  "cleanText (ustr ''prefix {\"a\":1} middle {\"b\":2} suffix'') =
     ustr ''prefix {\"a\":1} middle {\"b\":2} suffix''"
  by code_simp

lemma fence_residue_slice:
  "json_slice (ustr ''{\"a\":\"```html\"}'') = Some (ustr ''{\"a\":\"html\"}'')"
  by code_simp

lemma spec_fence_slice:
  "spec_json_slice (ustr ''{\"a\":\"```html\"}'') = Some (ustr ''{\"a\":\"\"}'')"
  by code_simp

lemma two_questions_fields:
  "two_questions (ustr ''passage'') = Some (JStr (ustr ''Sand.''))"
  "two_questions (ustr ''questions'') =
     Some (JArr [JStr (ustr ''What is X?''), JStr (ustr ''Why Y?'')])"
  by (simp_all add: two_questions_def ustr_def)

lemma one_question_fields:
  "one_question (ustr ''passage'') = Some (JStr (ustr ''Sand.''))"
  "one_question (ustr ''questions'') = Some (JStr (ustr ''What is X?''))"
  by (simp_all add: one_question_def ustr_def)

lemma numbered_example:
  "join (ustr ''\<newline>'')
     (map (\<lambda>i. dec (i + 1) @ ustr ''. '' @ [ustr ''What is X?'', ustr ''Why Y?''] ! i)
        [0..<length [ustr ''What is X?'', ustr ''Why Y?'']])
   = ustr ''1. What is X?\<newline>2. Why Y?''"
  by code_simp


section \<open>The claims\<close>

subsection \<open>C1: the JSON extractor of /analyze and /solve\<close>

text \<open>
  C1, as the specification states it, has the extractor remove the three markers
  \<open>```json\<close>, \<open>```html\<close> and \<open>```\<close>. The handlers replace \<open>/```json|```/g\<close> only:
  on the reply \<open>{"a":"```html"}\<close> the code hands \<open>{"a":"html"}\<close> to \<open>JSON.parse\<close>,
  where an extractor that removed the \<open>```html\<close> marker would hand it \<open>{"a":""}\<close>.
\<close>

theorem html_fence_counterexample:
  "json_slice (ustr ''{\"a\":\"```html\"}'') \<noteq> spec_json_slice (ustr ''{\"a\":\"```html\"}'')
   \<and> json_slice (ustr ''{\"a\":\"```html\"}'') = Some (ustr ''{\"a\":\"html\"}'')
   \<and> spec_json_slice (ustr ''{\"a\":\"```html\"}'') = Some (ustr ''{\"a\":\"\"}'')"
  by (simp add: fence_residue_slice spec_fence_slice) (simp add: ustr_def)

text \<open>
  C1 as amended. Take a request to \<open>/analyze\<close> or \<open>/solve\<close> (or to the one-route
  \<open>/analyze\<close>) that passes the guards and for which the model returns \<open>reply\<close>, and let
  \<open>clean\<close> be the trimmed reply after one scan from left to right in which, at each
  position, \<open>```json\<close> is removed if it starts there, otherwise \<open>```\<close> is removed if it
  starts there, otherwise the unit is kept (so of \<open>```html\<close> the text \<open>html\<close> stays),
  trimmed again: leading and trailing white space is dropped and nothing else. When
  \<open>clean\<close> has no \<open>{\<close> or no \<open>}\<close>, the response is status 400 with the body
  \<open>{error: "No valid JSON found"}\<close> (\<open>"No valid JSON found in AI response"\<close> in the
  one-route server) and does not depend on the parser. Otherwise there are the index
  \<open>i\<close> of the first \<open>{\<close> and the index \<open>j\<close> of the last \<open>}\<close>, and the response is
  decided by \<open>JSON.parse\<close> on exactly the units \<open>i\<close> to \<open>j\<close> of \<open>clean\<close>, both
  included (no unit at all when the last \<open>}\<close> comes before the first \<open>{\<close>): status 500
  with the message of the error when it throws; otherwise the parsed value with status
  200, or for \<open>/analyze\<close> the 422 response when the value fails the schema.
\<close>

theorem json_routes_extraction:
  "(let clean = trim (replace_all [ustr ''```json'', ustr ''```''] (trim reply)) in
      (0x7B \<notin> set clean \<or> 0x7D \<notin> set clean \<longrightarrow>
         (truthy (Number_falsy env) (obj (ustr ''passage''))
          \<and> template (Number_toString env) (obj (ustr ''passage'')) = Inr p
          \<and> generateContent env (RC_ANALYSIS_PROMPT env @ ustr ''\<newline>\<newline>Passage:\<newline>'' @ p) = Inr reply
          \<longrightarrow> fst (analyze env (Some obj)) =
                \<lparr>status = 400, body = JsonBody (JObj [(ustr ''error'', JStr (ustr ''No valid JSON found''))])\<rparr>
            \<and> fst (analyze_minimal env (Some obj)) =
                \<lparr>status = 400, body = JsonBody (JObj [(ustr ''error'', JStr (ustr ''No valid JSON found in AI response''))])\<rparr>)
       \<and> (truthy (Number_falsy env) (obj (ustr ''passage''))
          \<and> truthy (Number_falsy env) (obj (ustr ''questions''))
          \<and> combinedQuestions (Number_toString env) (obj (ustr ''questions'')) = Inr combined
          \<and> template (Number_toString env) (obj (ustr ''passage'')) = Inr p
          \<and> template (Number_toString env) combined = Inr cq
          \<and> generateContent env
                (RC_THOUGHT_SOLVER_PROMPT env @ ustr ''\<newline>\<newline>Passage:\<newline>'' @ p @ ustr ''\<newline>\<newline>Questions:\<newline>'' @ cq) = Inr reply
          \<longrightarrow> fst (solve env (Some obj)) =
                \<lparr>status = 400, body = JsonBody (JObj [(ustr ''error'', JStr (ustr ''No valid JSON found''))])\<rparr>))
    \<and> (0x7B \<in> set clean \<and> 0x7D \<in> set clean \<longrightarrow>
         (\<exists>i j. i < length clean \<and> j < length clean
               \<and> clean ! i = 0x7B \<and> (\<forall>k<i. clean ! k \<noteq> 0x7B)
               \<and> clean ! j = 0x7D \<and> (\<forall>k. j < k \<and> k < length clean \<longrightarrow> clean ! k \<noteq> 0x7D)
            \<and> (truthy (Number_falsy env) (obj (ustr ''passage''))
               \<and> template (Number_toString env) (obj (ustr ''passage'')) = Inr p
               \<and> generateContent env (RC_ANALYSIS_PROMPT env @ ustr ''\<newline>\<newline>Passage:\<newline>'' @ p) = Inr reply
               \<longrightarrow> fst (analyze env (Some obj)) =
                     (case JSON_parse env (take (Suc j - i) (drop i clean)) of
                        Inl err \<Rightarrow> \<lparr>status = 500, body = JsonBody (JObj [(ustr ''error'', JStr (message err))])\<rparr>
                      | Inr parsed \<Rightarrow>
                          if validate parsed \<noteq> [] then \<lparr>status = 422, body = ValidationBody (ustr ''Response schema validation failed'') (validate parsed) parsed\<rparr>
                          else \<lparr>status = 200, body = JsonBody parsed\<rparr>)
                 \<and> fst (analyze_minimal env (Some obj)) =
                     (case JSON_parse env (take (Suc j - i) (drop i clean)) of
                        Inl err \<Rightarrow>
                          \<lparr>status = 500, body = JsonBody (JObj [(ustr ''error'', JStr (ustr ''Internal server error'')),
                                            (ustr ''details'', JStr (message err))])\<rparr>
                      | Inr parsed \<Rightarrow>
                          if validate parsed \<noteq> [] then \<lparr>status = 422, body = ValidationBody (ustr ''Response schema validation failed'') (validate parsed) parsed\<rparr>
                          else \<lparr>status = 200, body = JsonBody parsed\<rparr>))
            \<and> (truthy (Number_falsy env) (obj (ustr ''passage''))
               \<and> truthy (Number_falsy env) (obj (ustr ''questions''))
               \<and> combinedQuestions (Number_toString env) (obj (ustr ''questions'')) = Inr combined
               \<and> template (Number_toString env) (obj (ustr ''passage'')) = Inr p
               \<and> template (Number_toString env) combined = Inr cq
               \<and> generateContent env
                     (RC_THOUGHT_SOLVER_PROMPT env @ ustr ''\<newline>\<newline>Passage:\<newline>'' @ p @ ustr ''\<newline>\<newline>Questions:\<newline>'' @ cq) = Inr reply
               \<longrightarrow> fst (solve env (Some obj)) =
                     (case JSON_parse env (take (Suc j - i) (drop i clean)) of
                        Inl err \<Rightarrow> \<lparr>status = 500, body = JsonBody (JObj [(ustr ''error'', JStr (message err))])\<rparr>
                      | Inr parsed \<Rightarrow> \<lparr>status = 200, body = JsonBody parsed\<rparr>)))))
   \<and> (replace_all [ustr ''```json'', ustr ''```''] [] = []
      \<and> (prefix (ustr ''```json'') s \<longrightarrow> replace_all [ustr ''```json'', ustr ''```''] s = replace_all [ustr ''```json'', ustr ''```''] (drop 7 s))
      \<and> (\<not> prefix (ustr ''```json'') s \<and> prefix (ustr ''```'') s \<longrightarrow> replace_all [ustr ''```json'', ustr ''```''] s = replace_all [ustr ''```json'', ustr ''```''] (drop 3 s))
      \<and> (\<not> prefix (ustr ''```'') (c # cs) \<longrightarrow> replace_all [ustr ''```json'', ustr ''```''] (c # cs) = c # replace_all [ustr ''```json'', ustr ''```''] cs))
   \<and> ((\<exists>l r. s = l @ trim s @ r \<and> (\<forall>u \<in> set l. is_white_space u) \<and> (\<forall>u \<in> set r. is_white_space u))
      \<and> (trim s \<noteq> [] \<longrightarrow> \<not> is_white_space (hd (trim s)) \<and> \<not> is_white_space (last (trim s))))
   \<and> (is_white_space c \<longleftrightarrow>
        c \<in> {0x09, 0x0A, 0x0B, 0x0C, 0x0D, 0x20, 0xA0, 0x1680, 0x2000, 0x2001, 0x2002, 0x2003,
             0x2004, 0x2005, 0x2006, 0x2007, 0x2008, 0x2009, 0x200A, 0x2028, 0x2029, 0x202F,
             0x205F, 0x3000, 0xFEFF})"
  unfolding Let_def
  by (rule conjI [OF conjI [OF extraction_without_json extraction_with_json]
        conjI [OF scan_json conjI [OF trim_ends white_space_units]]])

theorem json_routes_extraction_witness:
  "fst (analyze (stub_env (Inr (ustr ''I cannot help.'')) (Inr (JObj []))) (Some one_question)) =
     \<lparr>status = 400, body = JsonBody (JObj [(ustr ''error'', JStr (ustr ''No valid JSON found''))])\<rparr>
   \<and> fst (analyze_minimal (stub_env (Inr (ustr ''I cannot help.'')) (Inr (JObj []))) (Some one_question)) =
     \<lparr>status = 400, body = JsonBody (JObj [(ustr ''error'', JStr (ustr ''No valid JSON found in AI response''))])\<rparr>
   \<and> fst (solve (stub_env (Inr (ustr ''I cannot help.'')) (Inr (JObj []))) (Some one_question)) =
     \<lparr>status = 400, body = JsonBody (JObj [(ustr ''error'', JStr (ustr ''No valid JSON found''))])\<rparr>
   \<and> fst (analyze (stub_env (Inr incomplete_reply) (Inr incomplete_analysis)) (Some one_question)) =
     \<lparr>status = 422, body = ValidationBody (ustr ''Response schema validation failed'') (validate incomplete_analysis) incomplete_analysis\<rparr>
   \<and> fst (solve (stub_env (Inr incomplete_reply) (Inr incomplete_analysis)) (Some one_question)) =
     \<lparr>status = 200, body = JsonBody incomplete_analysis\<rparr>"
proof -
  have x: "ustr ''Sand.'' \<noteq> []" "ustr ''What is X?'' \<noteq> []"
    by (simp_all add: ustr_def)
  have c: "combinedQuestions dec (Some (JStr (ustr ''What is X?'')))
             = Inr (Some (JStr (ustr ''What is X?'')))"
    by (simp add: combinedQuestions_def)
  have n: "Number_toString (stub_env r q) = dec" "Number_falsy (stub_env r q) = (\<lambda>n. n = 0)"
    "generateContent (stub_env r q) prompt = r" "JSON_parse (stub_env r q) s = q"
    for r q prompt s
    by (simp_all add: stub_env_def)
  have absent: "0x7B \<notin> set (trim (replace_all [ustr ''```json'', ustr ''```'']
                   (trim (ustr ''I cannot help.''))))"
    by code_simp
  have present: "0x7B \<in> set (trim (replace_all [ustr ''```json'', ustr ''```''] (trim incomplete_reply)))
      \<and> 0x7D \<in> set (trim (replace_all [ustr ''```json'', ustr ''```''] (trim incomplete_reply)))"
    by code_simp
  have invalid: "validate incomplete_analysis \<noteq> []"
    by code_simp
  from json_routes_extraction
         [where env = "(stub_env (Inr (ustr ''I cannot help.'')) (Inr (JObj [])))" and obj = one_question
            and reply = "ustr ''I cannot help.''" and p = "ustr ''Sand.''"
            and combined = "Some (JStr (ustr ''What is X?''))" and cq = "ustr ''What is X?''",
          unfolded Let_def]
    absent x c
  have a: "fst (analyze (stub_env (Inr (ustr ''I cannot help.'')) (Inr (JObj []))) (Some one_question)) =
     \<lparr>status = 400, body = JsonBody (JObj [(ustr ''error'', JStr (ustr ''No valid JSON found''))])\<rparr>
   \<and> fst (analyze_minimal (stub_env (Inr (ustr ''I cannot help.'')) (Inr (JObj []))) (Some one_question)) =
     \<lparr>status = 400, body = JsonBody (JObj [(ustr ''error'', JStr (ustr ''No valid JSON found in AI response''))])\<rparr>
   \<and> fst (solve (stub_env (Inr (ustr ''I cannot help.'')) (Inr (JObj []))) (Some one_question)) =
     \<lparr>status = 400, body = JsonBody (JObj [(ustr ''error'', JStr (ustr ''No valid JSON found''))])\<rparr>"
    by (simp add: n one_question_fields)
  from json_routes_extraction
         [where env = "(stub_env (Inr incomplete_reply) (Inr incomplete_analysis))" and obj = one_question
            and reply = incomplete_reply and p = "ustr ''Sand.''"
            and combined = "Some (JStr (ustr ''What is X?''))" and cq = "ustr ''What is X?''",
          unfolded Let_def]
    present x c invalid
  have b: "fst (analyze (stub_env (Inr incomplete_reply) (Inr incomplete_analysis)) (Some one_question)) =
     \<lparr>status = 422, body = ValidationBody (ustr ''Response schema validation failed'') (validate incomplete_analysis) incomplete_analysis\<rparr>
   \<and> fst (solve (stub_env (Inr incomplete_reply) (Inr incomplete_analysis)) (Some one_question)) =
     \<lparr>status = 200, body = JsonBody incomplete_analysis\<rparr>"
    by (auto simp: n one_question_fields)
  from a b show ?thesis by simp
qed

subsection \<open>C2: what the schema of /analyze accepts\<close>

text \<open>
  C2. Every value that the validator of \<open>/analyze\<close> accepts, and so every payload that
  \<open>/analyze\<close> (in either server) returns with status 200, is an object whose set of
  top-level keys is exactly \<open>vocabulary\<close>, \<open>title\<close>, \<open>main_idea\<close>,
  \<open>facts_opinions_inferences\<close>, \<open>transitions\<close>, \<open>keywords\<close>, \<open>purpose\<close>: all seven
  are present and there is no other key.
\<close>

theorem analyze_success_has_the_seven_keys:
  assumes "validate v = []
         \<or> fst (analyze env req_body) = \<lparr>status = 200, body = JsonBody v\<rparr>
         \<or> fst (analyze_minimal env req_body) = \<lparr>status = 200, body = JsonBody v\<rparr>"
  shows "\<exists>kvs. v = JObj kvs
           \<and> set (map fst kvs) =
               {ustr ''vocabulary'', ustr ''title'', ustr ''main_idea'',
                ustr ''facts_opinions_inferences'', ustr ''transitions'', ustr ''keywords'',
                ustr ''purpose''}"
proof -
  have "validate v = []"
  proof -
    consider (a) "validate v = []"
      | (b) "fst (analyze env req_body) = \<lparr>status = 200, body = JsonBody v\<rparr>"
      | (c) "fst (analyze_minimal env req_body) = \<lparr>status = 200, body = JsonBody v\<rparr>"
      using assms by blast
    then show ?thesis
    proof cases
      case a
      then show ?thesis .
    next
      case b
      then have st: "status (fst (analyze env req_body)) = 200" by simp
      from analyze_200 [OF st] obtain t where t: "fst (analyze env req_body) = analyze_reply env t" ..
      with st have "status (analyze_reply env t) = 200" by simp
      moreover from t b have "body (analyze_reply env t) = JsonBody v"
        by (metis response.select_convs(2))
      ultimately show ?thesis using analyze_reply_200 [of env t] by auto
    next
      case c
      then have st: "status (fst (analyze_minimal env req_body)) = 200" by simp
      from analyze_minimal_200 [OF st] obtain t where
        t: "fst (analyze_minimal env req_body) = analyze_minimal_reply env t" ..
      with st have "status (analyze_minimal_reply env t) = 200" by simp
      moreover from t c have "body (analyze_minimal_reply env t) = JsonBody v"
        by (metis response.select_convs(2))
      ultimately show ?thesis using analyze_minimal_reply_200 [of env t] by auto
    qed
  qed
  from validate_accepts [OF this] show ?thesis
    by (simp add: schema_required)
qed

theorem analyze_success_has_the_seven_keys_witness:
  "fst (analyze (stub_env (Inr sample_reply) (Inr sample_analysis)) (Some passage_only)) =
     \<lparr>status = 200, body = JsonBody sample_analysis\<rparr>
   \<and> (\<exists>kvs. sample_analysis = JObj kvs
         \<and> set (map fst kvs) =
             {ustr ''vocabulary'', ustr ''title'', ustr ''main_idea'',
              ustr ''facts_opinions_inferences'', ustr ''transitions'', ustr ''keywords'',
              ustr ''purpose''})"
proof -
  have ok: "fst (analyze (stub_env (Inr sample_reply) (Inr sample_analysis)) (Some passage_only)) =
     \<lparr>status = 200, body = JsonBody sample_analysis\<rparr>"
    by code_simp
  with analyze_success_has_the_seven_keys
         [of sample_analysis "stub_env (Inr sample_reply) (Inr sample_analysis)"
            "Some passage_only"]
  show ?thesis by blast
qed

subsection \<open>C3: a reply that fails the schema\<close>

text \<open>
  C3. When \<open>/analyze\<close> (in either server) gets a reply whose slice parses to a value
  that fails the schema, for instance an object that lacks one of the required keys
  such as \<open>purpose\<close>, it answers with status 422, and the body carries the validator's
  list of errors, which is not empty, under \<open>validationErrors\<close> and the parsed value
  itself under \<open>rawOutput\<close>.
\<close>

theorem schema_failure_is_422:
  assumes "truthy (Number_falsy env) (obj (ustr ''passage''))"
    and "template (Number_toString env) (obj (ustr ''passage'')) = Inr p"
    and "generateContent env (RC_ANALYSIS_PROMPT env @ ustr ''\<newline>\<newline>Passage:\<newline>'' @ p) = Inr reply"
    and "json_slice (trim reply) = Some jsonString"
    and "JSON_parse env jsonString = Inr parsed"
    and "validate parsed \<noteq> []
         \<or> (\<exists>kvs k. parsed = JObj kvs \<and> k \<in> set (srequired schema) \<and> k \<notin> fst ` set kvs)"
  shows "validate parsed \<noteq> []
       \<and> fst (analyze env (Some obj)) =
           \<lparr>status = 422,
            body = ValidationBody (ustr ''Response schema validation failed'')
                     (validate parsed) parsed\<rparr>
       \<and> fst (analyze_minimal env (Some obj)) =
           \<lparr>status = 422,
            body = ValidationBody (ustr ''Response schema validation failed'')
                     (validate parsed) parsed\<rparr>"
proof -
  from assms(6) have invalid: "validate parsed \<noteq> []"
    using validate_rejects_missing by blast
  with assms(4,5) have
    "analyze_reply env (trim reply) =
       \<lparr>status = 422,
        body = ValidationBody (ustr ''Response schema validation failed'')
                 (validate parsed) parsed\<rparr>"
    "analyze_minimal_reply env (trim reply) =
       \<lparr>status = 422,
        body = ValidationBody (ustr ''Response schema validation failed'')
                 (validate parsed) parsed\<rparr>"
    by (simp_all add: analyze_reply_def analyze_minimal_reply_def Let_def)
  with invalid show ?thesis
    using analyze_run [of env obj p reply] assms(1,2,3) by simp
qed

theorem schema_failure_is_422_witness:
  "validate incomplete_analysis \<noteq> []
   \<and> fst (analyze (stub_env (Inr incomplete_reply) (Inr incomplete_analysis)) (Some passage_only)) =
       \<lparr>status = 422,
        body = ValidationBody (ustr ''Response schema validation failed'')
                 (validate incomplete_analysis) incomplete_analysis\<rparr>
   \<and> fst (analyze_minimal (stub_env (Inr incomplete_reply) (Inr incomplete_analysis)) (Some passage_only)) =
       \<lparr>status = 422,
        body = ValidationBody (ustr ''Response schema validation failed'')
                 (validate incomplete_analysis) incomplete_analysis\<rparr>"
proof -
  let ?env = "(stub_env (Inr incomplete_reply) (Inr incomplete_analysis))"
  have 1: "truthy (Number_falsy ?env) (passage_only (ustr ''passage''))"
    by (simp add: passage_only_def ustr_def)
  have 2: "template (Number_toString ?env) (passage_only (ustr ''passage'')) = Inr (ustr ''Sand.'')"
    by (simp add: passage_only_def)
  have 3: "generateContent ?env
             (RC_ANALYSIS_PROMPT ?env @ ustr ''\<newline>\<newline>Passage:\<newline>'' @ ustr ''Sand.'')
           = Inr incomplete_reply"
    by (simp add: stub_env_def)
  have 4: "json_slice (trim incomplete_reply) = Some (ustr ''{\"title\":\"T\"}'')"
    by code_simp
  have 5: "JSON_parse ?env (ustr ''{\"title\":\"T\"}'') = Inr incomplete_analysis"
    by (simp add: stub_env_def)
  have "ustr ''purpose'' \<in> set (srequired schema)"
    by (simp add: schema_required)
  moreover have "ustr ''purpose'' \<notin> fst ` set [(ustr ''title'', JStr (ustr ''T'') :: nat json)]"
    by (simp add: ustr_def)
  ultimately have 6: "validate incomplete_analysis \<noteq> []
         \<or> (\<exists>kvs k. incomplete_analysis = JObj kvs \<and> k \<in> set (srequired schema)
               \<and> k \<notin> fst ` set kvs)"
    unfolding incomplete_analysis_def by blast
  from schema_failure_is_422
         [where env = ?env and obj = passage_only and p = "ustr ''Sand.''"
            and reply = incomplete_reply and jsonString = "ustr ''{\"title\":\"T\"}''"
            and parsed = incomplete_analysis] 1 2 3 4 5 6
  show ?thesis by blast
qed

subsection \<open>C4: a missing field\<close>

text \<open>
  C4 says that a request without \<open>passage\<close> gets status 400 from every route before
  any call of the model. The handlers do this for a body object that lacks the key (the
  empty object below, and any falsy \<open>passage\<close> by C9). For a request whose body no
  parser took, \<open>req.body\<close> is \<open>undefined\<close>: the destructuring at the head of the
  \<open>try\<close> block throws before the guard is reached, and the \<open>catch\<close> block answers
  with status 500 and the message of the TypeError. No prompt is sent to the model in
  either case.
\<close>

theorem undefined_body_answers_500:
  "analyze env None =
     (\<lparr>status = 500, body = JsonBody (JObj [(ustr ''error'', JStr (ustr ''Cannot destructure property 'passage' of 'req.body' as it is undefined.''))])\<rparr>, [])
   \<and> mindmap env None =
     (\<lparr>status = 500, body = JsonBody (JObj [(ustr ''error'', JStr (ustr ''Cannot destructure property 'passage' of 'req.body' as it is undefined.''))])\<rparr>, [])
   \<and> solve env None =
     (\<lparr>status = 500, body = JsonBody (JObj [(ustr ''error'', JStr (ustr ''Cannot destructure property 'passage' of 'req.body' as it is undefined.''))])\<rparr>, [])
   \<and> analyze_minimal env None =
     (\<lparr>status = 500,
       body = JsonBody (JObj [(ustr ''error'', JStr (ustr ''Internal server error'')),
                              (ustr ''details'', JStr (ustr ''Cannot destructure property 'passage' of 'req.body' as it is undefined.''))])\<rparr>, [])
   \<and> analyze env (Some (\<lambda>key. None)) =
     (\<lparr>status = 400, body = JsonBody (JObj [(ustr ''error'', JStr (ustr ''Passage is required''))])\<rparr>, [])
   \<and> mindmap env (Some (\<lambda>key. None)) =
     (\<lparr>status = 400, body = JsonBody (JObj [(ustr ''error'', JStr (ustr ''Passage is required''))])\<rparr>, [])
   \<and> solve env (Some (\<lambda>key. None)) =
     (\<lparr>status = 400, body = JsonBody (JObj [(ustr ''error'', JStr (ustr ''Passage and questions are required''))])\<rparr>, [])
   \<and> analyze_minimal env (Some (\<lambda>key. None)) =
     (\<lparr>status = 400, body = JsonBody (JObj [(ustr ''error'', JStr (ustr ''Passage is required''))])\<rparr>, [])"
  by (simp add: analyze_def mindmap_def solve_def analyze_minimal_def catch_def
        catch_minimal_def destructure_undefined_def)

theorem undefined_body_answers_500_witness:
  "analyze (stub_env (Inr (ustr ''{}'')) (Inr (JObj []))) None =
     (\<lparr>status = 500, body = JsonBody (JObj [(ustr ''error'', JStr (ustr ''Cannot destructure property 'passage' of 'req.body' as it is undefined.''))])\<rparr>, [])
   \<and> mindmap (stub_env (Inr (ustr ''{}'')) (Inr (JObj []))) None =
     (\<lparr>status = 500, body = JsonBody (JObj [(ustr ''error'', JStr (ustr ''Cannot destructure property 'passage' of 'req.body' as it is undefined.''))])\<rparr>, [])
   \<and> solve (stub_env (Inr (ustr ''{}'')) (Inr (JObj []))) None =
     (\<lparr>status = 500, body = JsonBody (JObj [(ustr ''error'', JStr (ustr ''Cannot destructure property 'passage' of 'req.body' as it is undefined.''))])\<rparr>, [])
   \<and> analyze_minimal (stub_env (Inr (ustr ''{}'')) (Inr (JObj []))) None =
     (\<lparr>status = 500,
       body = JsonBody (JObj [(ustr ''error'', JStr (ustr ''Internal server error'')),
                              (ustr ''details'', JStr (ustr ''Cannot destructure property 'passage' of 'req.body' as it is undefined.''))])\<rparr>, [])
   \<and> analyze (stub_env (Inr (ustr ''{}'')) (Inr (JObj []))) (Some (\<lambda>key. None)) =
     (\<lparr>status = 400, body = JsonBody (JObj [(ustr ''error'', JStr (ustr ''Passage is required''))])\<rparr>, [])
   \<and> mindmap (stub_env (Inr (ustr ''{}'')) (Inr (JObj []))) (Some (\<lambda>key. None)) =
     (\<lparr>status = 400, body = JsonBody (JObj [(ustr ''error'', JStr (ustr ''Passage is required''))])\<rparr>, [])
   \<and> solve (stub_env (Inr (ustr ''{}'')) (Inr (JObj []))) (Some (\<lambda>key. None)) =
     (\<lparr>status = 400, body = JsonBody (JObj [(ustr ''error'', JStr (ustr ''Passage and questions are required''))])\<rparr>, [])
   \<and> analyze_minimal (stub_env (Inr (ustr ''{}'')) (Inr (JObj []))) (Some (\<lambda>key. None)) =
     (\<lparr>status = 400, body = JsonBody (JObj [(ustr ''error'', JStr (ustr ''Passage is required''))])\<rparr>, [])"
  by (rule undefined_body_answers_500)

subsection \<open>C5: the questions in the prompt of /solve\<close>

text \<open>
  C5. For a \<open>/solve\<close> request that passes the guards: when \<open>questions\<close> is a non-empty
  array, the one prompt sent to the model ends with the entries, each rendered as a
  string and prefixed with its 1-based ordinal, a dot and a space, and joined with
  newlines (\<open>1. What is X?\<close>, then on the next line \<open>2. Why Y?\<close>); when \<open>questions\<close> is
  a string, the prompt ends with that string unchanged.
\<close>

theorem solve_prompt_questions:
  assumes "truthy (Number_falsy env) (obj (ustr ''passage''))"
    and "template (Number_toString env) (obj (ustr ''passage'')) = Inr p"
  shows
    "(obj (ustr ''questions'') = Some (JArr qs) \<and> qs \<noteq> []
      \<and> list_all2 (\<lambda>q r. to_string (Number_toString env) q = Inr r) qs rs
      \<longrightarrow> snd (solve env (Some obj)) =
            [RC_THOUGHT_SOLVER_PROMPT env @ ustr ''\<newline>\<newline>Passage:\<newline>'' @ p
               @ ustr ''\<newline>\<newline>Questions:\<newline>''
               @ join (ustr ''\<newline>'')
                   (map (\<lambda>i. dec (i + 1) @ ustr ''. '' @ rs ! i) [0..<length rs])])
     \<and> (obj (ustr ''questions'') = Some (JStr q) \<and> q \<noteq> []
      \<longrightarrow> snd (solve env (Some obj)) =
            [RC_THOUGHT_SOLVER_PROMPT env @ ustr ''\<newline>\<newline>Passage:\<newline>'' @ p
               @ ustr ''\<newline>\<newline>Questions:\<newline>'' @ q])"
proof (intro conjI impI)
  assume a: "obj (ustr ''questions'') = Some (JArr qs) \<and> qs \<noteq> []
      \<and> list_all2 (\<lambda>q r. to_string (Number_toString env) q = Inr r) qs rs"
  let ?cq = "join (ustr ''\<newline>'')
               (map (\<lambda>i. dec (i + 1) @ ustr ''. '' @ rs ! i) [0..<length rs])"
  from a have c: "combinedQuestions (Number_toString env) (obj (ustr ''questions''))
                    = Inr (Some (JStr ?cq))"
    using combinedQuestions_array [of qs "Number_toString env" rs] by simp
  show "snd (solve env (Some obj)) =
            [RC_THOUGHT_SOLVER_PROMPT env @ ustr ''\<newline>\<newline>Passage:\<newline>'' @ p
               @ ustr ''\<newline>\<newline>Questions:\<newline>'' @ ?cq]"
    using assms a c
    by (simp add: solve_def Let_def del: dec.simps split: sum.splits)
next
  assume a: "obj (ustr ''questions'') = Some (JStr q) \<and> q \<noteq> []"
  then have c: "combinedQuestions (Number_toString env) (obj (ustr ''questions''))
                    = Inr (Some (JStr q))"
    by (simp add: combinedQuestions_def)
  show "snd (solve env (Some obj)) =
            [RC_THOUGHT_SOLVER_PROMPT env @ ustr ''\<newline>\<newline>Passage:\<newline>'' @ p
               @ ustr ''\<newline>\<newline>Questions:\<newline>'' @ q]"
    using assms a c
    by (simp add: solve_def Let_def split: sum.splits)
qed

theorem solve_prompt_questions_witness:
  "snd (solve (stub_env (Inr (ustr ''{}'')) (Inr (JObj []))) (Some two_questions)) =
     [ustr ''Answer the questions.'' @ ustr ''\<newline>\<newline>Passage:\<newline>'' @ ustr ''Sand.''
        @ ustr ''\<newline>\<newline>Questions:\<newline>'' @ ustr ''1. What is X?\<newline>2. Why Y?'']
   \<and> snd (solve (stub_env (Inr (ustr ''{}'')) (Inr (JObj []))) (Some one_question)) =
     [ustr ''Answer the questions.'' @ ustr ''\<newline>\<newline>Passage:\<newline>'' @ ustr ''Sand.''
        @ ustr ''\<newline>\<newline>Questions:\<newline>'' @ ustr ''What is X?'']"
proof -
  let ?env = "stub_env (Inr (ustr ''{}'')) (Inr (JObj []))"
  have sand: "ustr ''Sand.'' \<noteq> []" and x: "ustr ''What is X?'' \<noteq> []"
    by (simp_all add: ustr_def)
  have t2: "truthy (Number_falsy ?env) (two_questions (ustr ''passage''))"
    and t1: "truthy (Number_falsy ?env) (one_question (ustr ''passage''))"
    using sand by (simp_all add: two_questions_fields one_question_fields)
  have p2: "template (Number_toString ?env) (two_questions (ustr ''passage'')) = Inr (ustr ''Sand.'')"
    and p1: "template (Number_toString ?env) (one_question (ustr ''passage'')) = Inr (ustr ''Sand.'')"
    by (simp_all add: two_questions_fields one_question_fields)
  have l: "list_all2 (\<lambda>q r. to_string (Number_toString ?env) q = Inr r)
             [JStr (ustr ''What is X?''), JStr (ustr ''Why Y?'')]
             [ustr ''What is X?'', ustr ''Why Y?'']"
    by simp
  have rc: "RC_THOUGHT_SOLVER_PROMPT ?env = ustr ''Answer the questions.''"
    by (simp add: stub_env_def)
  from solve_prompt_questions
         [where env = ?env and obj = two_questions and p = "ustr ''Sand.''"
            and qs = "[JStr (ustr ''What is X?''), JStr (ustr ''Why Y?'')]"
            and rs = "[ustr ''What is X?'', ustr ''Why Y?'']"] l t2 p2
  have "snd (solve ?env (Some two_questions)) =
     [ustr ''Answer the questions.'' @ ustr ''\<newline>\<newline>Passage:\<newline>'' @ ustr ''Sand.''
        @ ustr ''\<newline>\<newline>Questions:\<newline>'' @ ustr ''1. What is X?\<newline>2. Why Y?'']"
    by (simp only: two_questions_fields numbered_example rc simp_thms list.simps)
  moreover from solve_prompt_questions
         [where env = ?env and obj = one_question and p = "ustr ''Sand.''"
            and q = "ustr ''What is X?''"] x t1 p1
  have "snd (solve ?env (Some one_question)) =
     [ustr ''Answer the questions.'' @ ustr ''\<newline>\<newline>Passage:\<newline>'' @ ustr ''Sand.''
        @ ustr ''\<newline>\<newline>Questions:\<newline>'' @ ustr ''What is X?'']"
    by (simp only: one_question_fields rc simp_thms)
  ultimately show ?thesis by simp
qed

subsection \<open>C6: the first and the last brace\<close>

text \<open>
  C6. On the reply \<open>prefix {"a":1} middle {"b":2} suffix\<close>, which fence removal and
  trimming leave as it is, the JSON routes hand \<open>{"a":1} middle {"b":2}\<close> to the
  parser: from the first \<open>{\<close> to the last \<open>}\<close>, both included, not a balanced match.
\<close>

theorem naive_first_last_slice:
  "cleanText (ustr ''prefix {\"a\":1} middle {\"b\":2} suffix'') =
     ustr ''prefix {\"a\":1} middle {\"b\":2} suffix''
   \<and> json_slice (ustr ''prefix {\"a\":1} middle {\"b\":2} suffix'') =
     Some (ustr ''{\"a\":1} middle {\"b\":2}'')
   \<and> solve_reply env (ustr ''prefix {\"a\":1} middle {\"b\":2} suffix'') =
     (case JSON_parse env (ustr ''{\"a\":1} middle {\"b\":2}'') of
        Inl err \<Rightarrow> catch err
      | Inr parsed \<Rightarrow> \<lparr>status = 200, body = JsonBody parsed\<rparr>)
   \<and> analyze_reply env (ustr ''prefix {\"a\":1} middle {\"b\":2} suffix'') =
     (case JSON_parse env (ustr ''{\"a\":1} middle {\"b\":2}'') of
        Inl err \<Rightarrow> catch err
      | Inr parsed \<Rightarrow>
          if validate parsed \<noteq> []
          then \<lparr>status = 422,
                body = ValidationBody (ustr ''Response schema validation failed'')
                         (validate parsed) parsed\<rparr>
          else \<lparr>status = 200, body = JsonBody parsed\<rparr>)"
  by (simp only: example_slice example_clean solve_reply_def analyze_reply_def option.case Let_def
       simp_thms)

subsection \<open>C7: a slice that does not parse\<close>

text \<open>
  C7. When the slice that \<open>/analyze\<close> or \<open>/solve\<close> extracts from the reply is not
  parseable, so that \<open>JSON.parse\<close> throws, the response has status 500 and its body is
  \<open>{error: err.message}\<close> with the message of that error (in the one-route server
  \<open>{error: "Internal server error", details: err.message}\<close>); it is neither the 400
  "No valid JSON found" nor the 422 response.
\<close>

theorem parse_failure_is_500:
  assumes "json_slice (trim reply) = Some jsonString"
    and "JSON_parse env jsonString = Inl err"
  shows
    "(truthy (Number_falsy env) (obj (ustr ''passage''))
     \<and> template (Number_toString env) (obj (ustr ''passage'')) = Inr p
     \<and> generateContent env (RC_ANALYSIS_PROMPT env @ ustr ''\<newline>\<newline>Passage:\<newline>'' @ p) = Inr reply
      \<longrightarrow> fst (analyze env (Some obj)) =
            \<lparr>status = 500, body = JsonBody (JObj [(ustr ''error'', JStr (message err))])\<rparr>
        \<and> fst (analyze_minimal env (Some obj)) =
            \<lparr>status = 500,
             body = JsonBody (JObj [(ustr ''error'', JStr (ustr ''Internal server error'')),
                                    (ustr ''details'', JStr (message err))])\<rparr>)
     \<and> (truthy (Number_falsy env) (obj (ustr ''passage''))
      \<and> truthy (Number_falsy env) (obj (ustr ''questions''))
      \<and> combinedQuestions (Number_toString env) (obj (ustr ''questions'')) = Inr combined
      \<and> template (Number_toString env) (obj (ustr ''passage'')) = Inr p
      \<and> template (Number_toString env) combined = Inr cq
      \<and> generateContent env
            (RC_THOUGHT_SOLVER_PROMPT env @ ustr ''\<newline>\<newline>Passage:\<newline>'' @ p @ ustr ''\<newline>\<newline>Questions:\<newline>'' @ cq) = Inr reply
      \<longrightarrow> fst (solve env (Some obj)) =
            \<lparr>status = 500, body = JsonBody (JObj [(ustr ''error'', JStr (message err))])\<rparr>)"
proof -
  have "analyze_reply env (trim reply) =
          \<lparr>status = 500, body = JsonBody (JObj [(ustr ''error'', JStr (message err))])\<rparr>"
    using assms by (simp add: analyze_reply_def catch_def)
  moreover have "analyze_minimal_reply env (trim reply) = catch_minimal err"
    using assms by (simp add: analyze_minimal_reply_def)
  moreover have "solve_reply env (trim reply) =
          \<lparr>status = 500, body = JsonBody (JObj [(ustr ''error'', JStr (message err))])\<rparr>"
    using assms by (simp add: solve_reply_def catch_def)
  ultimately show ?thesis
    using analyze_run [of env obj p reply] solve_run [of env obj combined p cq reply]
    by (simp add: catch_minimal_def)
qed

theorem parse_failure_is_500_witness:
  "fst (analyze (stub_env (Inr (ustr ''{oops}'')) (Inl (Exn (ustr ''Unexpected token o'')))) (Some one_question)) =
     \<lparr>status = 500, body = JsonBody (JObj [(ustr ''error'', JStr (ustr ''Unexpected token o''))])\<rparr>
   \<and> fst (analyze_minimal (stub_env (Inr (ustr ''{oops}'')) (Inl (Exn (ustr ''Unexpected token o'')))) (Some one_question)) =
     \<lparr>status = 500,
      body = JsonBody (JObj [(ustr ''error'', JStr (ustr ''Internal server error'')),
                             (ustr ''details'', JStr (ustr ''Unexpected token o''))])\<rparr>
   \<and> fst (solve (stub_env (Inr (ustr ''{oops}'')) (Inl (Exn (ustr ''Unexpected token o'')))) (Some one_question)) =
     \<lparr>status = 500, body = JsonBody (JObj [(ustr ''error'', JStr (ustr ''Unexpected token o''))])\<rparr>"
proof -
  let ?env = "(stub_env (Inr (ustr ''{oops}'')) (Inl (Exn (ustr ''Unexpected token o''))))"
  have s: "json_slice (trim (ustr ''{oops}'')) = Some (ustr ''{oops}'')"
    by code_simp
  have e: "JSON_parse ?env (ustr ''{oops}'') = Inl (Exn (ustr ''Unexpected token o''))"
    by (simp add: stub_env_def)
  have x: "ustr ''Sand.'' \<noteq> []" "ustr ''What is X?'' \<noteq> []"
    by (simp_all add: ustr_def)
  have g: "generateContent ?env prompt = Inr (ustr ''{oops}'')" for prompt
    by (simp add: stub_env_def)
  have c: "combinedQuestions (Number_toString ?env) (one_question (ustr ''questions''))
             = Inr (Some (JStr (ustr ''What is X?'')))"
    by (simp add: one_question_fields combinedQuestions_def)
  from parse_failure_is_500
         [where env = ?env and reply = "ustr ''{oops}''" and jsonString = "ustr ''{oops}''"
            and err = "Exn (ustr ''Unexpected token o'')" and obj = one_question
            and p = "ustr ''Sand.''" and combined = "Some (JStr (ustr ''What is X?''))"
            and cq = "ustr ''What is X?''"] s e x g c
  show ?thesis
    by (simp add: one_question_fields)
qed

subsection \<open>C8: /mindmap is a function of the reply\<close>

text \<open>
  C8. The body that \<open>/mindmap\<close> sends is a function of the reply text alone, the reply
  with its fences removed and trimmed: two invocations for which the model returns the
  same text send identical responses, whatever else differs between them.
\<close>

theorem mindmap_body_depends_on_reply_only:
  assumes "truthy (Number_falsy env1) (obj1 (ustr ''passage''))"
    and "template (Number_toString env1) (obj1 (ustr ''passage'')) = Inr p1"
    and "generateContent env1 (RC_MINDMAP_PROMPT env1 @ ustr ''\<newline>\<newline>Passage:\<newline>'' @ p1) = Inr reply"
    and "truthy (Number_falsy env2) (obj2 (ustr ''passage''))"
    and "template (Number_toString env2) (obj2 (ustr ''passage'')) = Inr p2"
    and "generateContent env2 (RC_MINDMAP_PROMPT env2 @ ustr ''\<newline>\<newline>Passage:\<newline>'' @ p2) = Inr reply"
  shows "fst (mindmap env1 (Some obj1)) =
           \<lparr>status = 200, body = TextBody (cleanHTML (trim reply))\<rparr>
       \<and> fst (mindmap env2 (Some obj2)) = fst (mindmap env1 (Some obj1))"
  using mindmap_run [of env1 obj1 p1 reply] mindmap_run [of env2 obj2 p2 reply] assms
  by (simp add: mindmap_reply_def)

theorem mindmap_body_depends_on_reply_only_witness:
  "fst (mindmap (stub_env (Inr (ustr ''```html\<newline><h1>Sand</h1>\<newline>```'')) (Inr (JObj [])))
          (Some passage_only)) =
     \<lparr>status = 200, body = TextBody (cleanHTML (trim (ustr ''```html\<newline><h1>Sand</h1>\<newline>```'')))\<rparr>
   \<and> fst (mindmap (stub_env (Inr (ustr ''```html\<newline><h1>Sand</h1>\<newline>```'')) (Inl (Exn [])))
          (Some two_questions)) =
     fst (mindmap (stub_env (Inr (ustr ''```html\<newline><h1>Sand</h1>\<newline>```'')) (Inr (JObj [])))
          (Some passage_only))"
proof -
  let ?r = "ustr ''```html\<newline><h1>Sand</h1>\<newline>```''"
  have x: "ustr ''Sand.'' \<noteq> []"
    by (simp add: ustr_def)
  have 1: "truthy (Number_falsy (stub_env (Inr ?r) (Inr (JObj []))))
             (passage_only (ustr ''passage''))"
    and 4: "truthy (Number_falsy (stub_env (Inr ?r) (Inl (Exn []))))
             (two_questions (ustr ''passage''))"
    using x by (simp_all add: passage_only_def two_questions_fields)
  have 2: "template (Number_toString (stub_env (Inr ?r) (Inr (JObj []))))
             (passage_only (ustr ''passage'')) = Inr (ustr ''Sand.'')"
    and 5: "template (Number_toString (stub_env (Inr ?r) (Inl (Exn []))))
             (two_questions (ustr ''passage'')) = Inr (ustr ''Sand.'')"
    by (simp_all add: passage_only_def two_questions_fields)
  have 3: "generateContent (stub_env (Inr ?r) (Inr (JObj [])))
             (RC_MINDMAP_PROMPT (stub_env (Inr ?r) (Inr (JObj [])))
                @ ustr ''\<newline>\<newline>Passage:\<newline>'' @ ustr ''Sand.'') = Inr ?r"
    and 6: "generateContent (stub_env (Inr ?r) (Inl (Exn [])))
             (RC_MINDMAP_PROMPT (stub_env (Inr ?r) (Inl (Exn [])))
                @ ustr ''\<newline>\<newline>Passage:\<newline>'' @ ustr ''Sand.'') = Inr ?r"
    by (simp_all add: stub_env_def)
  from mindmap_body_depends_on_reply_only
         [where ?env1.0 = "stub_env (Inr ?r) (Inr (JObj []))" and ?obj1.0 = passage_only
            and ?p1.0 = "ustr ''Sand.''" and reply = ?r
            and ?env2.0 = "stub_env (Inr ?r) (Inl (Exn []))" and ?obj2.0 = two_questions
            and ?p2.0 = "ustr ''Sand.''"] 1 2 3 4 5 6
  show ?thesis by blast
qed

subsection \<open>C9: a field that is present but falsy\<close>

text \<open>
  C9. The guards test the truthiness of the field, not its presence: a route answers
  with its 400 "required" error, and sends nothing to the model, exactly when
  \<open>passage\<close> is falsy (for \<open>/solve\<close>: when \<open>passage\<close> or \<open>questions\<close> is falsy), so a
  field that is present with the empty string, \<open>null\<close>, \<open>false\<close> or zero is rejected
  like a missing one.
\<close>

theorem falsy_field_rejected:
  "(analyze env req_body =
      (\<lparr>status = 400, body = JsonBody (JObj [(ustr ''error'', JStr (ustr ''Passage is required''))])\<rparr>, [])
    \<longleftrightarrow> (\<exists>obj. req_body = Some obj \<and> \<not> truthy (Number_falsy env) (obj (ustr ''passage''))))
   \<and> (mindmap env req_body =
      (\<lparr>status = 400, body = JsonBody (JObj [(ustr ''error'', JStr (ustr ''Passage is required''))])\<rparr>, [])
    \<longleftrightarrow> (\<exists>obj. req_body = Some obj \<and> \<not> truthy (Number_falsy env) (obj (ustr ''passage''))))
   \<and> (analyze_minimal env req_body =
      (\<lparr>status = 400, body = JsonBody (JObj [(ustr ''error'', JStr (ustr ''Passage is required''))])\<rparr>, [])
    \<longleftrightarrow> (\<exists>obj. req_body = Some obj \<and> \<not> truthy (Number_falsy env) (obj (ustr ''passage''))))
   \<and> (solve env req_body =
      (\<lparr>status = 400, body = JsonBody (JObj [(ustr ''error'', JStr (ustr ''Passage and questions are required''))])\<rparr>, [])
    \<longleftrightarrow> (\<exists>obj. req_body = Some obj
           \<and> (\<not> truthy (Number_falsy env) (obj (ustr ''passage''))
              \<or> \<not> truthy (Number_falsy env) (obj (ustr ''questions'')))))"
  by (cases req_body)
     (auto simp: analyze_def mindmap_def analyze_minimal_def solve_def Let_def catch_def
        catch_minimal_def split: sum.splits)

theorem falsy_field_rejected_witness:
  "analyze (stub_env (Inr (ustr ''{}'')) (Inr (JObj []))) (Some empty_passage) =
     (\<lparr>status = 400, body = JsonBody (JObj [(ustr ''error'', JStr (ustr ''Passage is required''))])\<rparr>, [])
   \<and> mindmap (stub_env (Inr (ustr ''{}'')) (Inr (JObj []))) (Some empty_passage) =
     (\<lparr>status = 400, body = JsonBody (JObj [(ustr ''error'', JStr (ustr ''Passage is required''))])\<rparr>, [])
   \<and> analyze_minimal (stub_env (Inr (ustr ''{}'')) (Inr (JObj []))) (Some empty_passage) =
     (\<lparr>status = 400, body = JsonBody (JObj [(ustr ''error'', JStr (ustr ''Passage is required''))])\<rparr>, [])
   \<and> solve (stub_env (Inr (ustr ''{}'')) (Inr (JObj []))) (Some empty_passage) =
     (\<lparr>status = 400, body = JsonBody (JObj [(ustr ''error'', JStr (ustr ''Passage and questions are required''))])\<rparr>, [])
   \<and> solve (stub_env (Inr (ustr ''{}'')) (Inr (JObj []))) (Some empty_questions) =
     (\<lparr>status = 400, body = JsonBody (JObj [(ustr ''error'', JStr (ustr ''Passage and questions are required''))])\<rparr>, [])"
proof -
  let ?env = "(stub_env (Inr (ustr ''{}'')) (Inr (JObj [])))"
  have p: "\<not> truthy (Number_falsy ?env) (empty_passage (ustr ''passage''))"
    by (simp add: empty_passage_def)
  have q: "\<not> truthy (Number_falsy ?env) (empty_questions (ustr ''questions''))"
    by (simp add: empty_questions_def ustr_def)
  from falsy_field_rejected [of ?env "Some empty_passage"] p
    falsy_field_rejected [of ?env "Some empty_questions"] q
  show ?thesis by blast
qed

subsection \<open>C10: fence removal is a global replacement\<close>




end
